theory Spec2Isabelle
  imports Complex_Main "HOL-Library.AList" "HOL-Library.Word"
begin

section \<open>The multi-layer audio engine of \<^verbatim>\<open>src/audio-engine.js\<close>\<close>

text \<open>
  The class \<^verbatim>\<open>AudioEngine\<close> is embedded method by method. Its fields become a record,
  each method a function from the engine state to an outcome (a normal return or a throw,
  both with the state reached). What the browser supplies is made explicit:
  \<^item> JavaScript numbers are real numbers (rounding of floats and of the \<^verbatim>\<open>Float32Array\<close>
    that stores samples is not modelled);
  \<^item> \<^verbatim>\<open>Math.random()\<close> is a stream \<open>rnd\<close> of draws, the engine state counts the calls made;
  \<^item> an \<^verbatim>\<open>AudioParam\<close> (a gain) is its timeline of scheduled automation events;
  \<^item> \<^verbatim>\<open>setTimeout\<close> callbacks are a list of pending tasks with their due time, run when
    time is advanced past it; the wall clock and the clock of the audio context advance
    together, and a context that exists is running, so \<^verbatim>\<open>resume()\<close> changes nothing;
  \<^item> \<^verbatim>\<open>console\<close> output is a list of entries;
  \<^item> whether a media file loads is an input \<open>media\<close> from the resource path;
  \<^item> an \<^verbatim>\<open>async\<close> method runs to its end in one step: no other command runs between
    its \<^verbatim>\<open>await\<close>s.
\<close>

subsection \<open>Noise synthesis: the three loops of \<^verbatim>\<open>createNoiseBuffer\<close>\<close>

text \<open>\<^verbatim>\<open>Math.random() * 2 - 1\<close>, for a draw \<open>r\<close> of \<^verbatim>\<open>Math.random()\<close>.\<close>

definition white_of :: "real \<Rightarrow> real" where
  "white_of r = r * 2 - 1"

text \<open>White noise: \<^verbatim>\<open>data[i] = Math.random() * 2 - 1\<close>.\<close>

fun white_loop :: "real list \<Rightarrow> real list" where
  "white_loop [] = []"
| "white_loop (r # rs) = white_of r # white_loop rs"

text \<open>Pink noise: the loop state is \<open>(b0, b1, b2, b3, b4, b5, b6)\<close>, one draw per sample.\<close>

type_synonym pink_state = "real \<times> real \<times> real \<times> real \<times> real \<times> real \<times> real"

fun pink_loop :: "pink_state \<Rightarrow> real list \<Rightarrow> real list" where
  "pink_loop st [] = []"
| "pink_loop (b0, b1, b2, b3, b4, b5, b6) (r # rs) =
     (let white = white_of r;
          b0' = 0.99886 * b0 + white * 0.0555179;
          b1' = 0.99332 * b1 + white * 0.0750759;
          b2' = 0.96900 * b2 + white * 0.1538520;
          b3' = 0.86650 * b3 + white * 0.3104856;
          b4' = 0.55000 * b4 + white * 0.5329522;
          b5' = - 0.7616 * b5 - white * 0.0168980;
          sample = (b0' + b1' + b2' + b3' + b4' + b5' + b6 + white * 0.5362) * 0.11;
          b6' = white * 0.115926
      in sample # pink_loop (b0', b1', b2', b3', b4', b5', b6') rs)"

text \<open>Brown noise: \<open>lastOut\<close> is the sample before the compensation by 3.5.\<close>

fun brown_loop :: "real \<Rightarrow> real list \<Rightarrow> real list" where
  "brown_loop lastOut [] = []"
| "brown_loop lastOut (r # rs) =
     (let white = white_of r;
          d = (lastOut + (0.02 * white)) / 1.02
      in (d * 3.5) # brown_loop d rs)"

record audio_buffer =
  bufferSampleRate :: nat
  channelData :: "real list"

record audio_context =
  contextSampleRate :: nat
  currentTime :: real
  closed :: bool

text \<open>
  \<^verbatim>\<open>createNoiseBuffer(noiseType)\<close> on the audio context \<open>ctx\<close>, when \<open>calls\<close> draws of
  \<^verbatim>\<open>Math.random()\<close> have been made before: the buffer and the new number of draws made.
  A type other than the three colors leaves the buffer as \<^verbatim>\<open>createBuffer\<close> made it, all zero.
\<close>

definition createNoiseBuffer ::
  "(nat \<Rightarrow> real) \<Rightarrow> nat \<Rightarrow> audio_context \<Rightarrow> string \<Rightarrow> audio_buffer \<times> nat" where
  "createNoiseBuffer rnd calls ctx noiseType =
     (let bufferSize = contextSampleRate ctx * 2;
          draws = map rnd [calls ..< calls + bufferSize]
      in if noiseType = ''white'' then
           (\<lparr>bufferSampleRate = contextSampleRate ctx, channelData = white_loop draws\<rparr>,
            calls + bufferSize)
         else if noiseType = ''pink'' then
           (\<lparr>bufferSampleRate = contextSampleRate ctx,
             channelData = pink_loop (0, 0, 0, 0, 0, 0, 0) draws\<rparr>,
            calls + bufferSize)
         else if noiseType = ''brown'' then
           (\<lparr>bufferSampleRate = contextSampleRate ctx, channelData = brown_loop 0 draws\<rparr>,
            calls + bufferSize)
         else
           (\<lparr>bufferSampleRate = contextSampleRate ctx, channelData = replicate bufferSize 0\<rparr>,
            calls))"

subsection \<open>The pink-noise filter as the specification words it\<close>

text \<open>
  Written from the specification, to be compared with \<open>pink_loop\<close>: six recursive filters
  \<open>state k\<close> with a decay factor and an input gain each, all starting at 0; a seventh
  state that holds the previous white sample times 0.115926; the sample is the sum of the
  six states, the seventh state and 0.5362 times the white sample, scaled by 0.11.
\<close>

definition pink_decay :: "real list" where
  "pink_decay = [0.99886, 0.99332, 0.96900, 0.86650, 0.55000, - 0.7616]"

definition pink_gain :: "real list" where
  "pink_gain = [0.0555179, 0.0750759, 0.1538520, 0.3104856, 0.5329522, - 0.0168980]"

fun spec_filter :: "real \<Rightarrow> real \<Rightarrow> (nat \<Rightarrow> real) \<Rightarrow> nat \<Rightarrow> real" where
  "spec_filter decay gain w 0 = decay * 0 + gain * w 0"
| "spec_filter decay gain w (Suc i) = decay * spec_filter decay gain w i + gain * w (Suc i)"

fun spec_delayed :: "(nat \<Rightarrow> real) \<Rightarrow> nat \<Rightarrow> real" where
  "spec_delayed w 0 = 0"
| "spec_delayed w (Suc i) = 0.115926 * w i"

definition spec_pink_sample :: "(nat \<Rightarrow> real) \<Rightarrow> nat \<Rightarrow> real" where
  "spec_pink_sample w i =
     0.11 * ((\<Sum>k \<leftarrow> [0 ..< 6]. spec_filter (pink_decay ! k) (pink_gain ! k) w i)
             + spec_delayed w i + 0.5362 * w i)"

subsection \<open>An audio parameter and its automation timeline\<close>

text \<open>
  The Web Audio interface the engine calls on a gain: events carry a value and a time.
  \<open>cancelScheduledValues t\<close> removes the events at or after \<open>t\<close>; a new event goes behind
  the events of its own time and before the later ones. The value read at time \<open>t\<close>
  follows the timeline from the default value at time 0: a set-value event holds from its
  time on, a linear ramp interpolates from the event before it to its own end point.
  Assigning \<^verbatim>\<open>param.value = v\<close> is \<^verbatim>\<open>setValueAtTime(v, currentTime)\<close>.
\<close>

datatype automation = SetValueAtTime real real | LinearRampToValueAtTime real real

type_synonym audio_param = "automation list"

fun eventValue :: "automation \<Rightarrow> real" where
  "eventValue (SetValueAtTime v t) = v"
| "eventValue (LinearRampToValueAtTime v t) = v"

fun eventTime :: "automation \<Rightarrow> real" where
  "eventTime (SetValueAtTime v t) = t"
| "eventTime (LinearRampToValueAtTime v t) = t"

fun insertEvent :: "automation \<Rightarrow> audio_param \<Rightarrow> audio_param" where
  "insertEvent e [] = [e]"
| "insertEvent e (x # xs) =
     (if eventTime e < eventTime x then e # x # xs else x # insertEvent e xs)"

definition cancelScheduledValues :: "real \<Rightarrow> audio_param \<Rightarrow> audio_param" where
  "cancelScheduledValues t p = filter (\<lambda>e. eventTime e < t) p"

definition setValueAtTime :: "real \<Rightarrow> real \<Rightarrow> audio_param \<Rightarrow> audio_param" where
  "setValueAtTime v t p = insertEvent (SetValueAtTime v t) p"

definition linearRampToValueAtTime :: "real \<Rightarrow> real \<Rightarrow> audio_param \<Rightarrow> audio_param" where
  "linearRampToValueAtTime v t p = insertEvent (LinearRampToValueAtTime v t) p"

fun valueFrom :: "real \<Rightarrow> real \<Rightarrow> audio_param \<Rightarrow> real \<Rightarrow> real" where
  "valueFrom v0 t0 [] t = v0"
| "valueFrom v0 t0 (SetValueAtTime v te # es) t =
     (if t < te then v0 else valueFrom v te es t)"
| "valueFrom v0 t0 (LinearRampToValueAtTime v te # es) t =
     (if t < te then
        (if t \<le> t0 then v0 else v0 + (v - v0) * ((t - t0) / (te - t0)))
      else valueFrom v te es t)"

text \<open>The getter \<^verbatim>\<open>param.value\<close> at time \<open>t\<close>; a gain's default value is 1.\<close>

definition paramValue :: "audio_param \<Rightarrow> real \<Rightarrow> real" where
  "paramValue p t = valueFrom 1 0 p t"

subsection \<open>The engine state\<close>

record audio_element =
  src :: string
  loop :: bool
  crossOrigin :: string

datatype source_node =
    MediaElementSource string
  | BufferSource audio_buffer bool
  | OscillatorNode string nat

record analyser_node =
  fftSize :: nat
  smoothingTimeConstant :: real

record layer =
  lid :: string
  audioElement :: "audio_element option"
  sourceNode :: "source_node option"
  gainNode :: audio_param
  analyserNode :: analyser_node
  currentSound :: "string option"
  isPlaying :: bool
  volume :: real
  noiseBuffer :: "audio_buffer option"
  noiseSource :: "source_node option"

record config =
  fadeDuration :: real
  enableCrossfade :: bool
  loopLayers :: bool
  sampleRate :: nat

datatype log_level = Log | Warn | Err

text \<open>
  The fields of the class, then the browser state the methods act on: the pending
  \<^verbatim>\<open>setTimeout\<close> tasks (due time in seconds, and the layer whose teardown the task runs),
  the wall clock, the console and the number of \<^verbatim>\<open>Math.random()\<close> calls made.
  The maps are association lists in insertion order, as a JavaScript \<^verbatim>\<open>Map\<close> iterates.
\<close>

record engine =
  audioContext :: "audio_context option"
  masterGain :: "audio_param option"
  layers :: "(string \<times> layer) list"
  isInitialized :: bool
  noiseGenerators :: "(string \<times> audio_buffer) list"
  config :: config
  timers :: "(real \<times> string) list"
  wallClock :: real
  console :: "(log_level \<times> string) list"
  randomCalls :: nat

datatype error = Error string | TypeError string

datatype outcome = Done engine | Throw error engine

fun state_of :: "outcome \<Rightarrow> engine" where
  "state_of (Done s) = s"
| "state_of (Throw e s) = s"

fun threw :: "outcome \<Rightarrow> bool" where
  "threw (Done s) = False"
| "threw (Throw e s) = True"

text \<open>Sequencing of statements: a throw ends the method.\<close>

fun and_then :: "outcome \<Rightarrow> (engine \<Rightarrow> outcome) \<Rightarrow> outcome" where
  "and_then (Done s) f = f s"
| "and_then (Throw e s) f = Throw e s"

definition console_log :: "log_level \<Rightarrow> string \<Rightarrow> engine \<Rightarrow> engine" where
  "console_log lvl msg s = s\<lparr>console := console s @ [(lvl, msg)]\<rparr>"

text \<open>An assignment to a field of the layer object registered under \<open>layerId\<close>.\<close>

definition modify_layer :: "string \<Rightarrow> (layer \<Rightarrow> layer) \<Rightarrow> engine \<Rightarrow> engine" where
  "modify_layer layerId f s =
     (case map_of (layers s) layerId of
        None \<Rightarrow> s
      | Some layer \<Rightarrow> s\<lparr>layers := AList.update layerId (f layer) (layers s)\<rparr>)"

text \<open>The constructor.\<close>

definition constructor :: engine where
  "constructor =
     \<lparr>audioContext = None, masterGain = None, layers = [], isInitialized = False,
      noiseGenerators = [],
      config = \<lparr>fadeDuration = 1.0, enableCrossfade = True, loopLayers = True,
                sampleRate = 44100\<rparr>,
      timers = [], wallClock = 0, console = [], randomCalls = 0\<rparr>"

text \<open>
  The table \<^verbatim>\<open>audioLibrary\<close>, read as \<^verbatim>\<open>audioLibrary[soundType]?.[soundName]\<close> on its own
  keys; the three generated colors are \<^verbatim>\<open>null\<close>, so they have no path.
\<close>

definition audioLibrary :: "string \<Rightarrow> string \<Rightarrow> string option" where
  "audioLibrary soundType soundName =
     (if soundType = ''nature'' then
        map_of [(''rain'', ''assets/audio/nature/rain.mp3''),
                (''forest'', ''assets/audio/nature/forest.mp3''),
                (''ocean'', ''assets/audio/nature/ocean.mp3''),
                (''stream'', ''assets/audio/nature/stream.mp3''),
                (''birds'', ''assets/audio/nature/birds.mp3'')] soundName
      else if soundType = ''music'' then
        map_of [(''piano'', ''assets/audio/music/piano.mp3''),
                (''ambient'', ''assets/audio/music/ambient.mp3''),
                (''guitar'', ''assets/audio/music/guitar.mp3''),
                (''strings'', ''assets/audio/music/strings.mp3''),
                (''lofi'', ''assets/audio/music/lofi.mp3'')] soundName
      else if soundType = ''noise'' then
        map_of [(''fan'', ''assets/audio/noise/fan.mp3''),
                (''cafe'', ''assets/audio/noise/cafe.mp3'')] soundName
      else if soundType = ''ambient'' then
        map_of [(''space'', ''assets/audio/ambient/space.mp3''),
                (''temple'', ''assets/audio/ambient/temple.mp3''),
                (''wind'', ''assets/audio/ambient/wind.mp3''),
                (''tibetan'', ''assets/audio/ambient/tibetan.mp3''),
                (''meditation'', ''assets/audio/ambient/meditation.mp3'')] soundName
      else None)"

subsection \<open>The methods\<close>

text \<open>A number in a template string, as \<^verbatim>\<open>${frequency}\<close> prints a whole number.\<close>

fun show_nat :: "nat \<Rightarrow> string" where
  "show_nat n =
     (if n < 10 then [''0123456789'' ! n]
      else show_nat (n div 10) @ [''0123456789'' ! (n mod 10)])"

declare show_nat.simps [simp del]

text \<open>
  \<^verbatim>\<open>initialize()\<close>: \<open>hw\<close> is the sample rate of the context the browser creates, \<open>None\<close>
  when the creation fails.
\<close>

definition initialize :: "nat option \<Rightarrow> engine \<Rightarrow> outcome" where
  "initialize hw s =
     (if isInitialized s then Done s
      else case hw of
        None \<Rightarrow>
          Throw (Error ''AudioContext'')
            (console_log Err ''Failed to initialize audio engine:'' s)
      | Some rate \<Rightarrow>
          Done (console_log Log ''Audio Engine initialized successfully''
            (s\<lparr>audioContext :=
                 Some \<lparr>contextSampleRate = rate, currentTime = 0, closed = False\<rparr>,
               masterGain := Some (setValueAtTime 0.7 0 []),
               isInitialized := True\<rparr>)))"

text \<open>\<^verbatim>\<open>createLayer(layerId, volume = 0.6)\<close>; the layer returned is the one registered.\<close>

definition createLayer :: "string \<Rightarrow> real option \<Rightarrow> engine \<Rightarrow> outcome" where
  "createLayer layerId volumeArg s =
     (let volume = (case volumeArg of None \<Rightarrow> 0.6 | Some v \<Rightarrow> v)
      in if \<not> isInitialized s then Throw (Error ''Audio engine not initialized'') s
         else if map_of (layers s) layerId \<noteq> None then
           Done (console_log Warn (''Layer '' @ layerId @ '' already exists'') s)
         else case audioContext s of
           None \<Rightarrow> Throw (TypeError ''audioContext is null'') s
         | Some ctx \<Rightarrow>
             (let layer =
                    \<lparr>lid = layerId, audioElement = None, sourceNode = None,
                     gainNode = setValueAtTime volume (currentTime ctx) [],
                     analyserNode = \<lparr>fftSize = 256, smoothingTimeConstant = 0.8\<rparr>,
                     currentSound = None, isPlaying = False, volume = volume,
                     noiseBuffer = None, noiseSource = None\<rparr>
              in Done (console_log Log (''Created layer: '' @ layerId)
                   (s\<lparr>layers := AList.update layerId layer (layers s)\<rparr>))))"

text \<open>\<^verbatim>\<open>_stopLayerImmediately(layerId)\<close>: the teardown.\<close>

definition stopLayerImmediately :: "string \<Rightarrow> engine \<Rightarrow> engine" where
  "stopLayerImmediately layerId s =
     (case map_of (layers s) layerId of
        None \<Rightarrow> s
      | Some layer \<Rightarrow>
          (let layer1 = (if audioElement layer \<noteq> None then layer\<lparr>audioElement := None\<rparr>
                         else layer);
               layer2 = (if noiseSource layer1 \<noteq> None then layer1\<lparr>noiseSource := None\<rparr>
                         else layer1);
               layer3 = layer2\<lparr>sourceNode := None, currentSound := None, isPlaying := False\<rparr>
           in console_log Log (''Stopped layer: '' @ layerId)
                (s\<lparr>layers := AList.update layerId layer3 (layers s)\<rparr>)))"

definition fadeIn :: "string \<Rightarrow> engine \<Rightarrow> outcome" where
  "fadeIn layerId s =
     (case map_of (layers s) layerId of
        None \<Rightarrow> Done s
      | Some layer \<Rightarrow>
          (case audioContext s of
             None \<Rightarrow> Throw (TypeError ''audioContext is null'') s
           | Some ctx \<Rightarrow>
               (let now = currentTime ctx;
                    targetVolume = volume layer;
                    g1 = cancelScheduledValues now (gainNode layer);
                    g2 = setValueAtTime 0 now g1;
                    g3 = linearRampToValueAtTime targetVolume
                           (now + fadeDuration (config s)) g2
                in Done (modify_layer layerId (\<lambda>l. l\<lparr>gainNode := g3\<rparr>) s))))"

text \<open>
  \<^verbatim>\<open>fadeOut(layerId, callback)\<close>: the only callback the engine passes is the teardown of a
  layer, so \<open>callback\<close> is the layer it tears down. The task is queued with
  \<^verbatim>\<open>setTimeout(callback, fadeDuration * 1000)\<close>; a negative delay counts as 0.
\<close>

definition fadeOut :: "string \<Rightarrow> string option \<Rightarrow> engine \<Rightarrow> outcome" where
  "fadeOut layerId callback s =
     (case map_of (layers s) layerId of
        None \<Rightarrow> Done s
      | Some layer \<Rightarrow>
          (case audioContext s of
             None \<Rightarrow> Throw (TypeError ''audioContext is null'') s
           | Some ctx \<Rightarrow>
               (let now = currentTime ctx;
                    g1 = cancelScheduledValues now (gainNode layer);
                    g2 = setValueAtTime (paramValue g1 now) now g1;
                    g3 = linearRampToValueAtTime 0 (now + fadeDuration (config s)) g2;
                    s1 = modify_layer layerId (\<lambda>l. l\<lparr>gainNode := g3\<rparr>) s
                in case callback of
                     None \<Rightarrow> Done s1
                   | Some target \<Rightarrow>
                       Done (s1\<lparr>timers := timers s1 @
                         [(wallClock s1 + max 0 (fadeDuration (config s1)), target)]\<rparr>))))"

definition stopLayer :: "string \<Rightarrow> engine \<Rightarrow> outcome" where
  "stopLayer layerId s =
     (case map_of (layers s) layerId of
        None \<Rightarrow> Done s
      | Some layer \<Rightarrow>
          if enableCrossfade (config s) \<and> isPlaying layer then fadeOut layerId (Some layerId) s
          else Done (stopLayerImmediately layerId s))"

text \<open>\<^verbatim>\<open>generateTone(layerId, frequency)\<close>; the callers pass the frequency.\<close>

definition generateTone :: "string \<Rightarrow> nat \<Rightarrow> engine \<Rightarrow> outcome" where
  "generateTone layerId frequency s =
     (case map_of (layers s) layerId of
        None \<Rightarrow> Done s
      | Some layer \<Rightarrow>
          (case audioContext s of
             None \<Rightarrow> Throw (TypeError ''audioContext is null'') s
           | Some ctx \<Rightarrow>
               Done (console_log Log
                 (''Playing fallback tone: '' @ show_nat frequency @ ''Hz on layer '' @ layerId)
                 (modify_layer layerId
                    (\<lambda>l. l\<lparr>sourceNode := Some (OscillatorNode ''sine'' frequency),
                            currentSound := Some (''tone/'' @ show_nat frequency @ ''Hz''),
                            isPlaying := True\<rparr>) s))))"

text \<open>
  \<^verbatim>\<open>generateAndPlayNoise(layerId, noiseType)\<close>. The test \<^verbatim>\<open>has\<close>, the \<^verbatim>\<open>set\<close> and the
  \<^verbatim>\<open>get\<close> that follows are one lookup: a color found is returned, a color missing is
  generated, stored and returned. Both uses of the context throw when it is null.
\<close>

definition generateAndPlayNoise :: "(nat \<Rightarrow> real) \<Rightarrow> string \<Rightarrow> string \<Rightarrow> engine \<Rightarrow> outcome" where
  "generateAndPlayNoise rnd layerId noiseType s =
     (case map_of (layers s) layerId of
        None \<Rightarrow> Done s
      | Some layer \<Rightarrow>
          (case audioContext s of
             None \<Rightarrow> Throw (TypeError ''audioContext is null'') s
           | Some ctx \<Rightarrow>
               (let (noiseBuffer, s1) =
                      (case map_of (noiseGenerators s) noiseType of
                         Some cached \<Rightarrow> (cached, s)
                       | None \<Rightarrow>
                           (let (buffer, calls) =
                                  createNoiseBuffer rnd (randomCalls s) ctx noiseType
                            in (buffer,
                                s\<lparr>noiseGenerators :=
                                     AList.update noiseType buffer (noiseGenerators s),
                                   randomCalls := calls\<rparr>)));
                    source = BufferSource noiseBuffer True;
                    s2 = modify_layer layerId
                           (\<lambda>l. l\<lparr>noiseSource := Some source, sourceNode := Some source,
                                   currentSound := Some (''noise/'' @ noiseType),
                                   isPlaying := True\<rparr>) s1
                in and_then (if enableCrossfade (config s2) then fadeIn layerId s2 else Done s2)
                     (\<lambda>s3. Done (console_log Log
                        (''Playing '' @ noiseType @ '' noise on layer '' @ layerId) s3)))))"

text \<open>
  What the browser does with a media file: it loads and plays, the element or its source
  node cannot be made, or \<^verbatim>\<open>audio.play()\<close> rejects (a missing or undecodable file).
\<close>

datatype load_outcome = Loaded | ElementFails | PlayRejected

text \<open>The \<^verbatim>\<open>try\<close> and \<^verbatim>\<open>catch\<close> of \<^verbatim>\<open>loadAndPlayAudio\<close>, for a path the table has.\<close>

definition loadAndPlayAudio_try ::
  "(string \<Rightarrow> load_outcome) \<Rightarrow> string \<Rightarrow> string \<Rightarrow> string \<Rightarrow> string \<Rightarrow> engine \<Rightarrow> outcome" where
  "loadAndPlayAudio_try media layerId soundType soundName audioPath s =
     (let catch = (\<lambda>s'. generateTone layerId 220
                     (console_log Err (''Error loading audio for '' @ layerId @ '':'') s'))
      in if audioContext s = None \<or> media audioPath = ElementFails then catch s
         else
           (let audio = \<lparr>src = audioPath, loop = loopLayers (config s),
                         crossOrigin = ''anonymous''\<rparr>;
                s2 = modify_layer layerId
                       (\<lambda>l. l\<lparr>audioElement := Some audio,
                               sourceNode := Some (MediaElementSource audioPath),
                               currentSound := Some (soundType @ ''/'' @ soundName)\<rparr>) s
            in case (if enableCrossfade (config s2) then fadeIn layerId s2 else Done s2) of
                 Throw e s3 \<Rightarrow> catch s3
               | Done s3 \<Rightarrow>
                   if media audioPath = PlayRejected then catch s3
                   else Done (console_log Log
                          (''Playing audio: '' @ soundType @ ''/'' @ soundName
                             @ '' on layer '' @ layerId)
                          (modify_layer layerId (\<lambda>l. l\<lparr>isPlaying := True\<rparr>) s3))))"

text \<open>
  \<^verbatim>\<open>loadAndPlayAudio(layerId, soundType, soundName)\<close>, run to its end in one step;
  \<^verbatim>\<open>resume()\<close> changes nothing the engine holds.
\<close>

definition loadAndPlayAudio ::
  "(string \<Rightarrow> load_outcome) \<Rightarrow> (nat \<Rightarrow> real) \<Rightarrow> string \<Rightarrow> string \<Rightarrow> string \<Rightarrow> engine \<Rightarrow> outcome" where
  "loadAndPlayAudio media rnd layerId soundType soundName s =
     (case map_of (layers s) layerId of
        None \<Rightarrow> Throw (Error (''Layer '' @ layerId @ '' not found'')) s
      | Some layer \<Rightarrow>
          and_then (stopLayer layerId s)
            (\<lambda>s1. if soundType = ''noise'' \<and> soundName \<in> set [''white'', ''pink'', ''brown'']
                   then generateAndPlayNoise rnd layerId soundName s1
                   else case audioLibrary soundType soundName of
                     None \<Rightarrow>
                       generateTone layerId 220
                         (console_log Err
                            (''Audio not found: '' @ soundType @ ''/'' @ soundName) s1)
                   | Some audioPath \<Rightarrow>
                       loadAndPlayAudio_try media layerId soundType soundName audioPath s1))"

text \<open>
  The clock of the context the layers' nodes were made by, which the assignment
  \<^verbatim>\<open>gain.value = volume\<close> stamps its event with.
\<close>

definition nodeTime :: "engine \<Rightarrow> real" where
  "nodeTime s = (case audioContext s of None \<Rightarrow> 0 | Some ctx \<Rightarrow> currentTime ctx)"

definition setLayerVolume :: "string \<Rightarrow> real \<Rightarrow> engine \<Rightarrow> outcome" where
  "setLayerVolume layerId vol s =
     (case map_of (layers s) layerId of
        None \<Rightarrow> Done s
      | Some layer \<Rightarrow>
          (let s1 = modify_layer layerId (\<lambda>l. l\<lparr>volume := vol\<rparr>) s
           in if isPlaying layer then
                (case audioContext s1 of
                   None \<Rightarrow> Throw (TypeError ''audioContext is null'') s1
                 | Some ctx \<Rightarrow>
                     (let now = currentTime ctx;
                          g1 = cancelScheduledValues now (gainNode layer);
                          g2 = setValueAtTime (paramValue g1 now) now g1;
                          g3 = linearRampToValueAtTime vol (now + 0.05) g2
                      in Done (modify_layer layerId (\<lambda>l. l\<lparr>gainNode := g3\<rparr>) s1)))
              else
                Done (modify_layer layerId
                  (\<lambda>l. l\<lparr>gainNode := setValueAtTime vol (nodeTime s1) (gainNode l)\<rparr>) s1)))"

definition setMasterVolume :: "real \<Rightarrow> engine \<Rightarrow> outcome" where
  "setMasterVolume vol s =
     (case masterGain s of
        None \<Rightarrow> Done s
      | Some gain \<Rightarrow>
          (case audioContext s of
             None \<Rightarrow> Throw (TypeError ''audioContext is null'') s
           | Some ctx \<Rightarrow>
               (let now = currentTime ctx;
                    g1 = cancelScheduledValues now gain;
                    g2 = setValueAtTime (paramValue g1 now) now g1;
                    g3 = linearRampToValueAtTime vol (now + 0.05) g2
                in Done (s\<lparr>masterGain := Some g3\<rparr>))))"

definition frequencyBinCount :: "analyser_node \<Rightarrow> nat" where
  "frequencyBinCount a = fftSize a div 2"

text \<open>
  \<^verbatim>\<open>getAnalyserData(layerId)\<close>; \<open>waveform\<close> is what \<^verbatim>\<open>getByteTimeDomainData\<close> writes into
  the array, \<open>None\<close> is \<^verbatim>\<open>null\<close>.
\<close>

definition getAnalyserData :: "(nat \<Rightarrow> 8 word) \<Rightarrow> string \<Rightarrow> engine \<Rightarrow> 8 word list option" where
  "getAnalyserData waveform layerId s =
     (case map_of (layers s) layerId of
        None \<Rightarrow> None
      | Some layer \<Rightarrow>
          if \<not> isPlaying layer then None
          else (let bufferLength = frequencyBinCount (analyserNode layer)
                in Some (map waveform [0 ..< bufferLength])))"

text \<open>\<^verbatim>\<open>stopAll()\<close>: the \<^verbatim>\<open>forEach\<close> over the layers, in insertion order.\<close>

fun stopAll_loop :: "(string \<times> layer) list \<Rightarrow> engine \<Rightarrow> outcome" where
  "stopAll_loop [] s = Done s"
| "stopAll_loop ((layerId, entry) # rest) s =
     (case map_of (layers s) layerId of
        None \<Rightarrow> stopAll_loop rest s
      | Some layer \<Rightarrow>
          if isPlaying layer then and_then (stopLayer layerId s) (stopAll_loop rest)
          else stopAll_loop rest s)"

definition stopAll :: "engine \<Rightarrow> outcome" where
  "stopAll s = stopAll_loop (layers s) s"

text \<open>\<^verbatim>\<open>currentSound.split('/')\<close> and the pattern \<^verbatim>\<open>[soundType, soundName]\<close>; a part the
  split does not give is \<^verbatim>\<open>undefined\<close>, used below only as a key and in a template, where
  it reads \<^verbatim>\<open>"undefined"\<close>.\<close>

fun split_slash :: "string \<Rightarrow> string list" where
  "split_slash [] = [[]]"
| "split_slash (c # cs) =
     (if c = CHR ''/'' then [] # split_slash cs
      else (case split_slash cs of
              [] \<Rightarrow> [[c]]
            | x # xs \<Rightarrow> (c # x) # xs))"

fun destructure2 :: "string list \<Rightarrow> string \<times> string" where
  "destructure2 [] = (''undefined'', ''undefined'')"
| "destructure2 [a] = (a, ''undefined'')"
| "destructure2 (a # b # rest) = (a, b)"

text \<open>
  \<^verbatim>\<open>playAll()\<close>. The calls of \<^verbatim>\<open>loadAndPlayAudio\<close> are not awaited: each starts after the
  \<^verbatim>\<open>forEach\<close> has tested every layer, and what it throws rejects a promise nobody reads.
  \<open>playAll_targets\<close> are the layers that pass the test
  \<^verbatim>\<open>layer.currentSound && !layer.isPlaying\<close>.
\<close>

definition playAll_targets :: "engine \<Rightarrow> (string \<times> layer) list" where
  "playAll_targets s =
     filter (\<lambda>(layerId, layer).
               (case currentSound layer of None \<Rightarrow> False | Some cs \<Rightarrow> cs \<noteq> [])
               \<and> \<not> isPlaying layer) (layers s)"

fun playAll_loop ::
  "(string \<Rightarrow> load_outcome) \<Rightarrow> (nat \<Rightarrow> real) \<Rightarrow> (string \<times> layer) list \<Rightarrow> engine \<Rightarrow> engine" where
  "playAll_loop media rnd [] s = s"
| "playAll_loop media rnd ((layerId, layer) # rest) s =
     (case currentSound layer of
        None \<Rightarrow> playAll_loop media rnd rest s
      | Some cs \<Rightarrow>
          (let (soundType, soundName) = destructure2 (split_slash cs)
           in playAll_loop media rnd rest
                (state_of (loadAndPlayAudio media rnd layerId soundType soundName s))))"

definition playAll :: "(string \<Rightarrow> load_outcome) \<Rightarrow> (nat \<Rightarrow> real) \<Rightarrow> engine \<Rightarrow> engine" where
  "playAll media rnd s = playAll_loop media rnd (playAll_targets s) s"

record layer_info =
  infoId :: string
  infoIsPlaying :: bool
  infoCurrentSound :: "string option"
  infoVolume :: real

definition getLayerInfo :: "string \<Rightarrow> engine \<Rightarrow> layer_info option" where
  "getLayerInfo layerId s =
     (case map_of (layers s) layerId of
        None \<Rightarrow> None
      | Some layer \<Rightarrow>
          Some \<lparr>infoId = lid layer, infoIsPlaying = isPlaying layer,
                infoCurrentSound = currentSound layer, infoVolume = volume layer\<rparr>)"

definition getActiveLayersCount :: "engine \<Rightarrow> nat" where
  "getActiveLayersCount s = length (filter (\<lambda>(layerId, layer). isPlaying layer) (layers s))"

text \<open>\<^verbatim>\<open>updateConfig(config)\<close>: the argument names the options it sets.\<close>

record config_patch =
  newFadeDuration :: "real option"
  newEnableCrossfade :: "bool option"
  newLoopLayers :: "bool option"
  newSampleRate :: "nat option"

definition updateConfig :: "config_patch \<Rightarrow> engine \<Rightarrow> engine" where
  "updateConfig patch s =
     (let old = config s;
          s1 = s\<lparr>config :=
                 \<lparr>fadeDuration =
                    (case newFadeDuration patch of None \<Rightarrow> fadeDuration old | Some v \<Rightarrow> v),
                  enableCrossfade =
                    (case newEnableCrossfade patch of None \<Rightarrow> enableCrossfade old | Some v \<Rightarrow> v),
                  loopLayers =
                    (case newLoopLayers patch of None \<Rightarrow> loopLayers old | Some v \<Rightarrow> v),
                  sampleRate =
                    (case newSampleRate patch of None \<Rightarrow> sampleRate old | Some v \<Rightarrow> v)\<rparr>\<rparr>
      in case newLoopLayers patch of
           None \<Rightarrow> s1
         | Some b \<Rightarrow>
             s1\<lparr>layers :=
                  map (\<lambda>(layerId, layer).
                         (layerId,
                          layer\<lparr>audioElement :=
                                  map_option (\<lambda>a. a\<lparr>loop := b\<rparr>) (audioElement layer)\<rparr>))
                    (layers s1)\<rparr>)"

definition dispose :: "engine \<Rightarrow> outcome" where
  "dispose s =
     and_then (stopAll s)
       (\<lambda>s1. Done (console_log Log ''Audio engine disposed''
          (s1\<lparr>audioContext := map_option (\<lambda>c. c\<lparr>closed := True\<rparr>) (audioContext s1),
              layers := [], noiseGenerators := [], isInitialized := False\<rparr>)))"

subsection \<open>Time, and runs of commands\<close>

text \<open>
  \<open>advance dt\<close> lets \<open>dt\<close> seconds pass: the wall clock and the clock of an open context
  move on, and the pending tasks that are due run, the earliest first.
\<close>

definition advance :: "real \<Rightarrow> engine \<Rightarrow> engine" where
  "advance dt s =
     (let d = max 0 dt;
          now = wallClock s + d;
          s1 = s\<lparr>wallClock := now,
                 audioContext :=
                   map_option (\<lambda>c. if closed c then c else c\<lparr>currentTime := currentTime c + d\<rparr>)
                     (audioContext s)\<rparr>;
          due = filter (\<lambda>(t, target). t \<le> now) (timers s1);
          s2 = s1\<lparr>timers := filter (\<lambda>(t, target). \<not> t \<le> now) (timers s1)\<rparr>
      in foldl (\<lambda>s' (t, target). stopLayerImmediately target s') s2 (sort_key fst due))"

datatype command =
    Initialize "nat option"
  | CreateLayer string "real option"
  | Play "string \<Rightarrow> load_outcome" string string string
  | Stop string
  | StopAll
  | PlayAll "string \<Rightarrow> load_outcome"
  | SetLayerVolume string real
  | SetMasterVolume real
  | UpdateConfig config_patch
  | Dispose
  | Advance real

fun exec :: "(nat \<Rightarrow> real) \<Rightarrow> command \<Rightarrow> engine \<Rightarrow> outcome" where
  "exec rnd (Initialize hw) s = initialize hw s"
| "exec rnd (CreateLayer layerId volumeArg) s = createLayer layerId volumeArg s"
| "exec rnd (Play media layerId soundType soundName) s =
     loadAndPlayAudio media rnd layerId soundType soundName s"
| "exec rnd (Stop layerId) s = stopLayer layerId s"
| "exec rnd StopAll s = stopAll s"
| "exec rnd (PlayAll media) s = Done (playAll media rnd s)"
| "exec rnd (SetLayerVolume layerId vol) s = setLayerVolume layerId vol s"
| "exec rnd (SetMasterVolume vol) s = setMasterVolume vol s"
| "exec rnd (UpdateConfig patch) s = Done (updateConfig patch s)"
| "exec rnd Dispose s = dispose s"
| "exec rnd (Advance dt) s = Done (advance dt s)"

text \<open>A run: the caller goes on after a throw, from the state the throw left.\<close>

fun run :: "(nat \<Rightarrow> real) \<Rightarrow> command list \<Rightarrow> engine \<Rightarrow> engine" where
  "run rnd [] s = s"
| "run rnd (c # cs) s = run rnd cs (state_of (exec rnd c s))"

subsection \<open>Notions used in the statements and proofs\<close>

text \<open>The state of one specification filter before sample \<open>k\<close>: 0 at the start.\<close>

definition prev_filter :: "real \<Rightarrow> real \<Rightarrow> (nat \<Rightarrow> real) \<Rightarrow> nat \<Rightarrow> real" where
  "prev_filter decay gain w k = (case k of 0 \<Rightarrow> 0 | Suc j \<Rightarrow> spec_filter decay gain w j)"

text \<open>
  \<open>touches_layers_only s s'\<close>: the step from \<open>s\<close> to \<open>s'\<close> changed at most the contents of
  registered layers and the pending tasks, and appended to the console.
\<close>

definition touches_layers_only :: "engine \<Rightarrow> engine \<Rightarrow> bool" where
  "touches_layers_only s s' \<longleftrightarrow>
     audioContext s' = audioContext s \<and> config s' = config s \<and>
     noiseGenerators s' = noiseGenerators s \<and> randomCalls s' = randomCalls s \<and>
     masterGain s' = masterGain s \<and> isInitialized s' = isInitialized s \<and>
     wallClock s' = wallClock s \<and> map fst (layers s') = map fst (layers s) \<and>
     (\<exists>extra. console s' = console s @ extra)"

text \<open>
  \<open>keeps_layout s s'\<close>: the step kept the context, the configuration, the set of layers
  and every buffer of the noise cache.
\<close>

definition keeps_layout :: "engine \<Rightarrow> engine \<Rightarrow> bool" where
  "keeps_layout s s' \<longleftrightarrow>
     audioContext s' = audioContext s \<and> config s' = config s \<and>
     isInitialized s' = isInitialized s \<and> map fst (layers s') = map fst (layers s) \<and>
     (\<forall>c b. map_of (noiseGenerators s) c = Some b \<longrightarrow> map_of (noiseGenerators s') c = Some b)"

text \<open>An engine that has a layer has an audio context.\<close>

definition context_present :: "engine \<Rightarrow> bool" where
  "context_present s \<longleftrightarrow> (layers s \<noteq> [] \<longrightarrow> audioContext s \<noteq> None)"

text \<open>The gain parameter of the layer registered under \<open>layerId\<close>, if there is one.\<close>

definition layer_gain :: "engine \<Rightarrow> string \<Rightarrow> audio_param option" where
  "layer_gain s layerId = map_option gainNode (map_of (layers s) layerId)"

text \<open>The source node bound to the layer registered under \<open>layerId\<close>.\<close>

definition layer_source :: "engine \<Rightarrow> string \<Rightarrow> source_node option option" where
  "layer_source s layerId = map_option sourceNode (map_of (layers s) layerId)"

text \<open>The stored volume of the layer registered under \<open>layerId\<close>.\<close>

definition layer_volume :: "engine \<Rightarrow> string \<Rightarrow> real option" where
  "layer_volume s layerId = map_option volume (map_of (layers s) layerId)"




text \<open>Values within \<open>[0, 1]\<close>: a number, the events of a gain, a layer, the whole engine.\<close>

definition in_unit :: "real \<Rightarrow> bool" where
  "in_unit v \<longleftrightarrow> 0 \<le> v \<and> v \<le> 1"

definition param_clamped :: "audio_param \<Rightarrow> bool" where
  "param_clamped p \<longleftrightarrow> list_all (\<lambda>e. in_unit (eventValue e)) p"

definition layer_clamped :: "layer \<Rightarrow> bool" where
  "layer_clamped layer \<longleftrightarrow> in_unit (volume layer) \<and> param_clamped (gainNode layer)"

definition gains_clamped :: "engine \<Rightarrow> bool" where
  "gains_clamped s \<longleftrightarrow>
     list_all (\<lambda>(layerId, layer). layer_clamped layer) (layers s) \<and>
     (case masterGain s of None \<Rightarrow> True | Some gain \<Rightarrow> param_clamped gain)"


section \<open>Properties of the noise synthesis\<close>

subsection \<open>Buffer length\<close>

lemma length_white_loop: "length (white_loop rs) = length rs"
  by (induction rs) simp_all

lemma length_pink_loop: "length (pink_loop st rs) = length rs"
proof (induction rs arbitrary: st)
  case Nil
  show ?case by simp
next
  case (Cons r rs)
  obtain b0 b1 b2 b3 b4 b5 b6 where st: "st = (b0, b1, b2, b3, b4, b5, b6)"
    by (cases st) auto
  show ?case unfolding st by (simp add: Let_def Cons.IH)
qed

lemma length_brown_loop: "length (brown_loop lastOut rs) = length rs"
  by (induction rs arbitrary: lastOut) (simp_all add: Let_def)

lemma length_createNoiseBuffer:
  "length (channelData (fst (createNoiseBuffer rnd calls ctx noiseType))) = contextSampleRate ctx * 2"
  by (simp add: createNoiseBuffer_def Let_def length_white_loop length_pink_loop length_brown_loop)

subsection \<open>The pink-noise loop computes the specified filter\<close>

lemma spec_filter_prev:
  "spec_filter decay gain w k = decay * prev_filter decay gain w k + gain * w k"
  by (cases k) (simp_all add: prev_filter_def)

lemma prev_filter_Suc: "prev_filter decay gain w (Suc k) = spec_filter decay gain w k"
  by (simp add: prev_filter_def)

lemma upt6: "[0 ..< 6] = [0, 1, 2, 3, 4, 5::nat]"
  by (simp add: upt_rec)

lemma spec_pink_sample_prev:
  "spec_pink_sample w k =
     0.11 * (0.99886 * prev_filter 0.99886 0.0555179 w k + 0.0555179 * w k
           + (0.99332 * prev_filter 0.99332 0.0750759 w k + 0.0750759 * w k)
           + (0.96900 * prev_filter 0.96900 0.1538520 w k + 0.1538520 * w k)
           + (0.86650 * prev_filter 0.86650 0.3104856 w k + 0.3104856 * w k)
           + (0.55000 * prev_filter 0.55000 0.5329522 w k + 0.5329522 * w k)
           + (- 0.7616 * prev_filter (- 0.7616) (- 0.0168980) w k + (- 0.0168980) * w k)
           + spec_delayed w k + 0.5362 * w k)"
  unfolding spec_pink_sample_def upt6 pink_decay_def pink_gain_def
  by (simp add: spec_filter_prev [of _ _ w k])

lemma pink_loop_from:
  assumes "b0 = prev_filter 0.99886 0.0555179 (\<lambda>i. white_of (r i)) k"
    and "b1 = prev_filter 0.99332 0.0750759 (\<lambda>i. white_of (r i)) k"
    and "b2 = prev_filter 0.96900 0.1538520 (\<lambda>i. white_of (r i)) k"
    and "b3 = prev_filter 0.86650 0.3104856 (\<lambda>i. white_of (r i)) k"
    and "b4 = prev_filter 0.55000 0.5329522 (\<lambda>i. white_of (r i)) k"
    and "b5 = prev_filter (- 0.7616) (- 0.0168980) (\<lambda>i. white_of (r i)) k"
    and "b6 = spec_delayed (\<lambda>i. white_of (r i)) k"
  shows "pink_loop (b0, b1, b2, b3, b4, b5, b6) (map r [k ..< k + n]) =
     map (spec_pink_sample (\<lambda>i. white_of (r i))) [k ..< k + n]"
  using assms
proof (induction n arbitrary: k b0 b1 b2 b3 b4 b5 b6)
  case 0
  show ?case by simp
next
  case (Suc n)
  have split: "[k ..< k + Suc n] = k # [Suc k ..< Suc k + n]"
    by (simp add: upt_conv_Cons)
  show ?case
    unfolding split list.map pink_loop.simps Let_def
  proof (rule arg_cong2 [where f = "(#)"])
    show "(0.99886 * b0 + white_of (r k) * 0.0555179 + (0.99332 * b1 + white_of (r k) * 0.0750759)
        + (0.96900 * b2 + white_of (r k) * 0.1538520) + (0.86650 * b3 + white_of (r k) * 0.3104856)
        + (0.55000 * b4 + white_of (r k) * 0.5329522) + (- 0.7616 * b5 - white_of (r k) * 0.0168980)
        + b6 + white_of (r k) * 0.5362) * 0.11 = spec_pink_sample (\<lambda>i. white_of (r i)) k"
      unfolding spec_pink_sample_prev Suc.prems by simp
  next
    show "pink_loop
        (0.99886 * b0 + white_of (r k) * 0.0555179, 0.99332 * b1 + white_of (r k) * 0.0750759,
         0.96900 * b2 + white_of (r k) * 0.1538520, 0.86650 * b3 + white_of (r k) * 0.3104856,
         0.55000 * b4 + white_of (r k) * 0.5329522, - 0.7616 * b5 - white_of (r k) * 0.0168980,
         white_of (r k) * 0.115926)
        (map r [Suc k ..< Suc k + n]) =
      map (spec_pink_sample (\<lambda>i. white_of (r i))) [Suc k ..< Suc k + n]"
      by (rule Suc.IH) (simp_all add: prev_filter_Suc spec_filter_prev Suc.prems)
  qed
qed

lemma draws_reindex: "map rnd [calls ..< calls + n] = map (\<lambda>i. rnd (calls + i)) [0 ..< n]"
proof -
  have "[calls ..< calls + n] = map (\<lambda>i. i + calls) [0 ..< n]"
    by (simp add: map_add_upt add.commute)
  then show ?thesis by (simp add: o_def add.commute)
qed

text \<open>
  Claim C5. The samples of the pink buffer are those of the specified filter bank: six
  recursive states with the listed decay factors and input gains, all starting at 0, the
  delayed white term with gain 0.115926 and the direct white term with gain 0.5362, the
  sum scaled by 0.11. The white sample \<open>i\<close> of the buffer is made from draw \<open>calls + i\<close>.
\<close>

theorem pink_buffer_is_specified_filter:
  "channelData (fst (createNoiseBuffer rnd calls ctx ''pink'')) =
     map (spec_pink_sample (\<lambda>i. white_of (rnd (calls + i)))) [0 ..< contextSampleRate ctx * 2]"
proof -
  have "pink_loop (0, 0, 0, 0, 0, 0, 0) (map (\<lambda>i. rnd (calls + i)) [0 ..< 0 + contextSampleRate ctx * 2]) =
      map (spec_pink_sample (\<lambda>i. white_of (rnd (calls + i)))) [0 ..< 0 + contextSampleRate ctx * 2]"
    by (rule pink_loop_from) (simp_all add: prev_filter_def)
  then show ?thesis
    by (simp add: createNoiseBuffer_def Let_def draws_reindex)
qed

subsection \<open>Bounds of the samples\<close>

lemma white_of_bounds: "0 \<le> r \<Longrightarrow> r \<le> 1 \<Longrightarrow> \<bar>white_of r\<bar> \<le> 1"
  by (simp add: white_of_def abs_le_iff)

lemma white_loop_bounded:
  "\<forall>r\<in>set rs. 0 \<le> r \<and> r \<le> 1 \<Longrightarrow> \<forall>x\<in>set (white_loop rs). \<bar>x\<bar> \<le> 1"
  by (induction rs) (simp_all add: white_of_bounds)

lemma brown_step_bound:
  assumes "\<bar>lastOut\<bar> \<le> 1" and "\<bar>w\<bar> \<le> 1"
  shows "\<bar>(lastOut + 0.02 * w) / 1.02\<bar> \<le> (1::real)"
  using assms by (simp add: abs_le_iff field_simps)

lemma brown_loop_bounded:
  "\<bar>lastOut\<bar> \<le> 1 \<Longrightarrow> \<forall>r\<in>set rs. 0 \<le> r \<and> r \<le> 1 \<Longrightarrow>
     \<forall>x\<in>set (brown_loop lastOut rs). \<bar>x\<bar> \<le> 3.5"
proof (induction rs arbitrary: lastOut)
  case Nil
  show ?case by simp
next
  case (Cons r rs)
  have w: "\<bar>white_of r\<bar> \<le> 1" using Cons.prems(2) by (simp add: white_of_bounds)
  have d: "\<bar>(lastOut + 0.02 * white_of r) / 1.02\<bar> \<le> 1"
    using Cons.prems(1) w by (rule brown_step_bound)
  have rest: "\<forall>x\<in>set (brown_loop ((lastOut + 0.02 * white_of r) / 1.02) rs). \<bar>x\<bar> \<le> 3.5"
    using d Cons.prems(2) by (intro Cons.IH) simp_all
  have "\<bar>(lastOut + 0.02 * white_of r) / 1.02 * 3.5\<bar> \<le> 3.5"
    using d by (simp add: abs_mult)
  then show ?case using rest by (simp add: Let_def)
qed

lemma pink_filter_bound:
  fixes b w decay gain B :: real
  assumes "\<bar>b\<bar> \<le> B" and "\<bar>w\<bar> \<le> 1" and "\<bar>decay\<bar> * B + \<bar>gain\<bar> \<le> B"
  shows "\<bar>decay * b + w * gain\<bar> \<le> B"
proof -
  have "\<bar>decay * b + w * gain\<bar> \<le> \<bar>decay\<bar> * \<bar>b\<bar> + \<bar>w\<bar> * \<bar>gain\<bar>"
    using abs_triangle_ineq [of "decay * b" "w * gain"] by (simp add: abs_mult)
  also have "\<dots> \<le> \<bar>decay\<bar> * B + 1 * \<bar>gain\<bar>"
    using assms(1,2) by (intro add_mono mult_left_mono mult_right_mono) simp_all
  finally show ?thesis using assms(3) by simp
qed

lemma pink_sample_bound:
  fixes x0 x1 x2 x3 x4 x5 b6 w :: real
  assumes "\<bar>x0\<bar> \<le> 48.7" and "\<bar>x1\<bar> \<le> 11.24" and "\<bar>x2\<bar> \<le> 4.97" and "\<bar>x3\<bar> \<le> 2.33"
    and "\<bar>x4\<bar> \<le> 1.19" and "\<bar>x5\<bar> \<le> 0.071" and "\<bar>b6\<bar> \<le> 0.116" and "\<bar>w\<bar> \<le> 1"
  shows "\<bar>(x0 + x1 + x2 + x3 + x4 + x5 + b6 + w * 0.5362) * 0.11\<bar> \<le> 7.61"
proof (rule abs_leI)
  note up = assms [THEN abs_le_D1] and lo = assms [THEN abs_le_D2]
  show "(x0 + x1 + x2 + x3 + x4 + x5 + b6 + w * 0.5362) * 0.11 \<le> 7.61"
    using up by (simp add: algebra_simps)
  show "- ((x0 + x1 + x2 + x3 + x4 + x5 + b6 + w * 0.5362) * 0.11) \<le> 7.61"
    using lo by (simp add: algebra_simps)
qed

lemma pink_loop_bounded:
  assumes "\<bar>b0\<bar> \<le> 48.7" and "\<bar>b1\<bar> \<le> 11.24" and "\<bar>b2\<bar> \<le> 4.97" and "\<bar>b3\<bar> \<le> 2.33"
    and "\<bar>b4\<bar> \<le> 1.19" and "\<bar>b5\<bar> \<le> 0.071" and "\<bar>b6\<bar> \<le> 0.116"
    and "\<forall>r\<in>set rs. 0 \<le> r \<and> r \<le> 1"
  shows "\<forall>x\<in>set (pink_loop (b0, b1, b2, b3, b4, b5, b6) rs). \<bar>x\<bar> \<le> 7.61"
  using assms
proof (induction rs arbitrary: b0 b1 b2 b3 b4 b5 b6)
  case Nil
  show ?case by simp
next
  case (Cons r rs)
  define w where "w = white_of r"
  have w: "\<bar>w\<bar> \<le> 1" using Cons.prems(8) by (simp add: w_def white_of_bounds)
  have n0: "\<bar>0.99886 * b0 + w * 0.0555179\<bar> \<le> 48.7"
    using Cons.prems(1) w by (rule pink_filter_bound) simp
  have n1: "\<bar>0.99332 * b1 + w * 0.0750759\<bar> \<le> 11.24"
    using Cons.prems(2) w by (rule pink_filter_bound) simp
  have n2: "\<bar>0.96900 * b2 + w * 0.1538520\<bar> \<le> 4.97"
    using Cons.prems(3) w by (rule pink_filter_bound) simp
  have n3: "\<bar>0.86650 * b3 + w * 0.3104856\<bar> \<le> 2.33"
    using Cons.prems(4) w by (rule pink_filter_bound) simp
  have n4: "\<bar>0.55000 * b4 + w * 0.5329522\<bar> \<le> 1.19"
    using Cons.prems(5) w by (rule pink_filter_bound) simp
  have n5': "\<bar>(- 0.7616) * b5 + w * (- 0.0168980)\<bar> \<le> 0.071"
    using Cons.prems(6) w by (rule pink_filter_bound) simp
  have n5: "\<bar>- 0.7616 * b5 - w * 0.0168980\<bar> \<le> 0.071"
    using n5' by simp
  have n6: "\<bar>w * 0.115926\<bar> \<le> 0.116"
    using w by (simp add: abs_mult)
  have sample: "\<bar>(0.99886 * b0 + w * 0.0555179 + (0.99332 * b1 + w * 0.0750759)
        + (0.96900 * b2 + w * 0.1538520) + (0.86650 * b3 + w * 0.3104856)
        + (0.55000 * b4 + w * 0.5329522) + (- 0.7616 * b5 - w * 0.0168980)
        + b6 + w * 0.5362) * 0.11\<bar> \<le> 7.61"
    using n0 n1 n2 n3 n4 n5 Cons.prems(7) w by (rule pink_sample_bound)
  have rest: "\<forall>x\<in>set (pink_loop
        (0.99886 * b0 + w * 0.0555179, 0.99332 * b1 + w * 0.0750759,
         0.96900 * b2 + w * 0.1538520, 0.86650 * b3 + w * 0.3104856,
         0.55000 * b4 + w * 0.5329522, - 0.7616 * b5 - w * 0.0168980,
         w * 0.115926) rs). \<bar>x\<bar> \<le> 7.61"
    using n0 n1 n2 n3 n4 n5 n6 Cons.prems(8) by (intro Cons.IH) simp_all
  show ?case
    using sample rest by (simp add: Let_def w_def)
qed

lemma brown_const_nth:
  "i < length rs \<Longrightarrow> \<forall>r\<in>set rs. r = 0 \<Longrightarrow>
     brown_loop lastOut rs ! i = 3.5 * ((lastOut + 1) * (50 / 51) ^ Suc i - 1)"
proof (induction rs arbitrary: lastOut i)
  case Nil
  then show ?case by simp
next
  case (Cons r rs)
  have r: "r = 0" using Cons.prems(2) by simp
  show ?case
  proof (cases i)
    case 0
    show ?thesis unfolding 0 r by (simp add: Let_def white_of_def field_simps)
  next
    case (Suc j)
    have "brown_loop ((lastOut + 0.02 * white_of 0) / 1.02) rs ! j =
        3.5 * (((lastOut + 0.02 * white_of 0) / 1.02 + 1) * (50 / 51) ^ Suc j - 1)"
      using Cons.prems Suc by (intro Cons.IH) simp_all
    then show ?thesis unfolding Suc r by (simp add: Let_def white_of_def field_simps)
  qed
qed

text \<open>
  Claim C6, as the code has it. With every draw of \<^verbatim>\<open>Math.random()\<close> in \<open>[0, 1]\<close>, so every
  white sample in \<open>[-1, 1]\<close>, the samples of a white buffer stay within \<open>[-1, 1]\<close>, those of
  a brown buffer within \<open>[-3.5, 3.5]\<close> and those of a pink buffer within \<open>[-7.61, 7.61]\<close>.
\<close>

theorem noise_samples_bounded:
  assumes "\<forall>i. 0 \<le> rnd i \<and> rnd i \<le> 1"
  shows "\<forall>x\<in>set (channelData (fst (createNoiseBuffer rnd calls ctx noiseType))).
           \<bar>x\<bar> \<le> (if noiseType = ''white'' then 1
                  else if noiseType = ''pink'' then 7.61
                  else if noiseType = ''brown'' then 3.5 else 0)"
proof -
  let ?draws = "map rnd [calls ..< calls + contextSampleRate ctx * 2]"
  have draws: "\<forall>r\<in>set ?draws. 0 \<le> r \<and> r \<le> 1"
    using assms by simp
  have white: "\<forall>x\<in>set (white_loop ?draws). \<bar>x\<bar> \<le> 1"
    using draws by (rule white_loop_bounded)
  have pink: "\<forall>x\<in>set (pink_loop (0, 0, 0, 0, 0, 0, 0) ?draws). \<bar>x\<bar> \<le> 7.61"
    using draws by (intro pink_loop_bounded) simp_all
  have brown: "\<forall>x\<in>set (brown_loop 0 ?draws). \<bar>x\<bar> \<le> 3.5"
    using draws by (intro brown_loop_bounded) simp_all
  show ?thesis
    using white pink brown by (simp add: createNoiseBuffer_def Let_def)
qed

text \<open>A pink sample of a buffer made from the draws 1/2, 1/2, ... obeys the bound.\<close>

theorem noise_samples_bounded_witness:
  "(\<forall>i::nat. (0::real) \<le> 1 / 2 \<and> (1::real) / 2 \<le> 1) \<and>
   \<bar>channelData (fst (createNoiseBuffer (\<lambda>n. 1 / 2) 0
        \<lparr>contextSampleRate = 44100, currentTime = 0, closed = False\<rparr> ''pink'')) ! 1000\<bar> \<le> 7.61"
proof -
  let ?data = "channelData (fst (createNoiseBuffer (\<lambda>n. 1 / 2) 0
        \<lparr>contextSampleRate = 44100, currentTime = 0, closed = False\<rparr> ''pink''))"
  have "1000 < length ?data"
    by (simp add: length_createNoiseBuffer)
  then have "?data ! 1000 \<in> set ?data"
    by (rule nth_mem)
  then show ?thesis
    using noise_samples_bounded [of "\<lambda>n. 1 / 2" 0
        "\<lparr>contextSampleRate = 44100, currentTime = 0, closed = False\<rparr>" "''pink''"]
    by simp
qed

text \<open>
  The claim as stated fails: when \<^verbatim>\<open>Math.random()\<close> returns 0 a hundred times, sample 99
  of the brown buffer is below -3.
\<close>

theorem brown_sample_exceeds_unit_range:
  "3 < \<bar>channelData (fst (createNoiseBuffer (\<lambda>n. 0) 0
          \<lparr>contextSampleRate = 44100, currentTime = 0, closed = False\<rparr> ''brown'')) ! 99\<bar>"
proof -
  have "brown_loop 0 (map (\<lambda>n. 0::real) [0 ..< 88200]) ! 99 = 3.5 * ((0 + 1) * (50 / 51) ^ Suc 99 - 1)"
    by (rule brown_const_nth) simp_all
  moreover have "(50 / 51 :: real) ^ Suc 99 < 1 / 7"
    by (simp add: power_divide)
  ultimately show ?thesis
    by (simp add: createNoiseBuffer_def Let_def)
qed

lemma spec_filter_const:
  assumes "d \<noteq> 1"
  shows "spec_filter d g (\<lambda>i. 1) n = g * (1 - d ^ Suc n) / (1 - d)"
proof (induction n)
  case 0
  show ?case using assms by simp
next
  case (Suc n)
  have nz: "1 - d \<noteq> 0" using assms by simp
  have "d * (g * (1 - d ^ Suc n) / (1 - d)) + g = g * (1 - d ^ Suc (Suc n)) / (1 - d)"
    using nz by (simp add: field_simps)
  then show ?case using Suc by simp
qed

lemma spec_delayed_later: "0 < i \<Longrightarrow> spec_delayed w i = 0.115926 * w (i - 1)"
  by (cases i) simp_all

lemma pink_ones_25: "1.1 < spec_pink_sample (\<lambda>i. 1) 25"
  unfolding spec_pink_sample_def upt6 pink_decay_def pink_gain_def
  by (simp add: spec_filter_const spec_delayed_later power_divide)

text \<open>
  The pink buffer leaves \<open>[-1, 1]\<close> as well: when every white sample is 1, sample 25 is
  above 1.1.
\<close>

lemma pink_sample_exceeds_unit_range:
  "1.1 < channelData (fst (createNoiseBuffer (\<lambda>n. 1) 0
          \<lparr>contextSampleRate = 44100, currentTime = 0, closed = False\<rparr> ''pink'')) ! 25"
proof -
  have "pink_loop (0, 0, 0, 0, 0, 0, 0) (map (\<lambda>n. 1) [0 ..< 0 + 88200]) =
      map (spec_pink_sample (\<lambda>i. white_of 1)) [0 ..< 0 + 88200]"
    by (rule pink_loop_from) (simp_all add: prev_filter_def)
  then have "pink_loop (0, 0, 0, 0, 0, 0, 0) (map (\<lambda>n. 1) [0 ..< 88200]) ! 25 =
      spec_pink_sample (\<lambda>i. 1) 25"
    by (simp add: white_of_def)
  then show ?thesis
    using pink_ones_25 by (simp add: createNoiseBuffer_def Let_def)
qed

section \<open>Properties of the engine\<close>

subsection \<open>What a step leaves unchanged\<close>

lemma map_of_update: "map_of (AList.update k v al) k' = (if k' = k then Some v else map_of al k')"
  by (simp add: update_conv')

lemma layers_modify_layer:
  "map_of (layers (modify_layer l f s)) k =
     (if k = l then map_option f (map_of (layers s) l) else map_of (layers s) k)"
  by (simp add: modify_layer_def map_of_update split: option.splits)

lemma modify_layer_fields [simp]:
  "audioContext (modify_layer l f s) = audioContext s"
  "masterGain (modify_layer l f s) = masterGain s"
  "isInitialized (modify_layer l f s) = isInitialized s"
  "noiseGenerators (modify_layer l f s) = noiseGenerators s"
  "config (modify_layer l f s) = config s"
  "timers (modify_layer l f s) = timers s"
  "wallClock (modify_layer l f s) = wallClock s"
  "console (modify_layer l f s) = console s"
  "randomCalls (modify_layer l f s) = randomCalls s"
  by (simp_all add: modify_layer_def split: option.splits)

lemma console_log_fields [simp]:
  "audioContext (console_log lvl msg s) = audioContext s"
  "masterGain (console_log lvl msg s) = masterGain s"
  "layers (console_log lvl msg s) = layers s"
  "isInitialized (console_log lvl msg s) = isInitialized s"
  "noiseGenerators (console_log lvl msg s) = noiseGenerators s"
  "config (console_log lvl msg s) = config s"
  "timers (console_log lvl msg s) = timers s"
  "wallClock (console_log lvl msg s) = wallClock s"
  "console (console_log lvl msg s) = console s @ [(lvl, msg)]"
  "randomCalls (console_log lvl msg s) = randomCalls s"
  by (simp_all add: console_log_def)

lemma stopLayerImmediately_fields [simp]:
  "audioContext (stopLayerImmediately l s) = audioContext s"
  "masterGain (stopLayerImmediately l s) = masterGain s"
  "isInitialized (stopLayerImmediately l s) = isInitialized s"
  "noiseGenerators (stopLayerImmediately l s) = noiseGenerators s"
  "config (stopLayerImmediately l s) = config s"
  "timers (stopLayerImmediately l s) = timers s"
  "wallClock (stopLayerImmediately l s) = wallClock s"
  "randomCalls (stopLayerImmediately l s) = randomCalls s"
  by (simp_all add: stopLayerImmediately_def Let_def split: option.splits)

lemma layers_stopLayerImmediately:
  "map_of (layers (stopLayerImmediately l s)) k =
     (if k = l then
        map_option (\<lambda>layer. layer\<lparr>audioElement := None, noiseSource := None, sourceNode := None,
                                 currentSound := None, isPlaying := False\<rparr>) (map_of (layers s) l)
      else map_of (layers s) k)"
  by (cases "map_of (layers s) l")
     (auto simp add: stopLayerImmediately_def Let_def map_of_update)

lemma console_stopLayerImmediately:
  "\<exists>extra. console (stopLayerImmediately l s) = console s @ extra"
  by (simp add: stopLayerImmediately_def Let_def split: option.splits)


lemma touches_refl [simp]: "touches_layers_only s s"
  by (simp add: touches_layers_only_def)

lemma touches_trans:
  "touches_layers_only s s1 \<Longrightarrow> touches_layers_only s1 s2 \<Longrightarrow> touches_layers_only s s2"
  by (auto simp add: touches_layers_only_def)

lemma keys_update_present:
  "map_of al k = Some v \<Longrightarrow> map fst (AList.update k v' al) = map fst al"
  by (induction al) (auto split: if_splits)

lemma touches_modify_layer [simp]: "touches_layers_only s (modify_layer l f s)"
  by (auto simp add: touches_layers_only_def modify_layer_def keys_update_present split: option.splits)

lemma touches_console_log [simp]: "touches_layers_only s (console_log lvl msg s)"
  by (simp add: touches_layers_only_def)

lemma touches_timers [simp]: "touches_layers_only s (s\<lparr>timers := ts\<rparr>)"
  by (simp add: touches_layers_only_def)

lemma touches_stopLayerImmediately [simp]: "touches_layers_only s (stopLayerImmediately l s)"
  by (auto simp add: touches_layers_only_def stopLayerImmediately_def Let_def keys_update_present
      split: option.splits)

lemma touches_fadeIn [simp]: "touches_layers_only s (state_of (fadeIn l s))"
  by (simp add: fadeIn_def Let_def split: option.splits)

lemma touches_fadeOut [simp]: "touches_layers_only s (state_of (fadeOut l cb s))"
  by (auto simp add: fadeOut_def Let_def split: option.splits
      intro: touches_trans [OF touches_modify_layer touches_timers])

lemma touches_stopLayer [simp]: "touches_layers_only s (state_of (stopLayer l s))"
  by (simp add: stopLayer_def split: option.splits)

lemma touches_generateTone [simp]: "touches_layers_only s (state_of (generateTone l f s))"
  by (auto simp add: generateTone_def split: option.splits
      intro: touches_trans [OF touches_modify_layer touches_console_log])

lemma has_layer_keys: "map_of al k \<noteq> None \<longleftrightarrow> k \<in> set (map fst al)"
  by (simp add: map_of_eq_None_iff)

lemma touches_has_layer:
  "touches_layers_only s s' \<Longrightarrow> map_of (layers s') k \<noteq> None \<longleftrightarrow> map_of (layers s) k \<noteq> None"
  unfolding has_layer_keys by (simp add: touches_layers_only_def)

lemma fadeIn_returns: "audioContext s \<noteq> None \<Longrightarrow> \<not> threw (fadeIn l s)"
  by (auto simp add: fadeIn_def Let_def split: option.splits)

lemma fadeOut_returns: "audioContext s \<noteq> None \<Longrightarrow> \<not> threw (fadeOut l cb s)"
  by (auto simp add: fadeOut_def Let_def split: option.splits)

lemma stopLayer_returns: "audioContext s \<noteq> None \<Longrightarrow> \<not> threw (stopLayer l s)"
  by (auto simp add: stopLayer_def fadeOut_returns split: option.splits)

lemma not_threw_Done: "\<not> threw r \<Longrightarrow> r = Done (state_of r)"
  by (cases r) simp_all


lemma generateTone_result:
  assumes "map_of (layers s) l = Some layer" and "audioContext s = Some ctx"
  shows "generateTone l f s =
     Done (console_log Log (''Playing fallback tone: '' @ show_nat f @ ''Hz on layer '' @ l)
       (modify_layer l (\<lambda>x. x\<lparr>sourceNode := Some (OscillatorNode ''sine'' f),
                                currentSound := Some (''tone/'' @ show_nat f @ ''Hz''),
                                isPlaying := True\<rparr>) s))"
  using assms by (simp add: generateTone_def)

lemma show_nat_220: "show_nat 220 = ''220''"
  by (simp add: show_nat.simps)

subsection \<open>The fallback tone\<close>

text \<open>The catch branch: an error entry, then the tone.\<close>

lemma fallback_tone:
  assumes "map_of (layers s) l \<noteq> None" and "audioContext s \<noteq> None"
  shows "\<exists>s'. generateTone l 220 (console_log Err msg s) = Done s' \<and>
           touches_layers_only s s' \<and>
           console s' = console s @ [(Err, msg), (Log, ''Playing fallback tone: 220Hz on layer '' @ l)] \<and>
           (\<exists>layer'. map_of (layers s') l = Some layer' \<and>
              sourceNode layer' = Some (OscillatorNode ''sine'' 220) \<and>
              currentSound layer' = Some ''tone/220Hz'' \<and> isPlaying layer')"
proof -
  obtain layer ctx where l: "map_of (layers s) l = Some layer" and c: "audioContext s = Some ctx"
    using assms by auto
  have "generateTone l 220 (console_log Err msg s) =
      Done (console_log Log (''Playing fallback tone: '' @ show_nat 220 @ ''Hz on layer '' @ l)
       (modify_layer l (\<lambda>x. x\<lparr>sourceNode := Some (OscillatorNode ''sine'' 220),
                                currentSound := Some (''tone/'' @ show_nat 220 @ ''Hz''),
                                isPlaying := True\<rparr>) (console_log Err msg s)))"
    by (rule generateTone_result [where layer = layer and ctx = ctx]) (simp_all add: l c)
  moreover have "touches_layers_only s (console_log Log (''Playing fallback tone: '' @ show_nat 220 @ ''Hz on layer '' @ l)
       (modify_layer l (\<lambda>x. x\<lparr>sourceNode := Some (OscillatorNode ''sine'' 220),
                                currentSound := Some (''tone/'' @ show_nat 220 @ ''Hz''),
                                isPlaying := True\<rparr>) (console_log Err msg s)))"
    by (rule touches_trans [OF touches_trans [OF touches_console_log touches_modify_layer]
          touches_console_log])
  ultimately show ?thesis
    by (simp add: show_nat_220 layers_modify_layer l)
qed


lemma touches_context: "touches_layers_only s s' \<Longrightarrow> audioContext s' = audioContext s"
  by (simp add: touches_layers_only_def)

lemma touches_console:
  "touches_layers_only s s' \<Longrightarrow> \<exists>extra. console s' = console s @ extra"
  by (simp add: touches_layers_only_def)

lemma try_fallback:
  assumes l: "map_of (layers s) l \<noteq> None" and c: "audioContext s \<noteq> None"
    and m: "media path \<noteq> Loaded"
  shows "\<exists>s'. loadAndPlayAudio_try media l soundType soundName path s = Done s' \<and>
           (\<exists>before msg. console s' = console s @ before @
               [(Err, msg), (Log, ''Playing fallback tone: 220Hz on layer '' @ l)]) \<and>
           (\<exists>layer'. map_of (layers s') l = Some layer' \<and>
              sourceNode layer' = Some (OscillatorNode ''sine'' 220) \<and>
              currentSound layer' = Some ''tone/220Hz'' \<and> isPlaying layer')"
proof (cases "media path = ElementFails")
  case True
  obtain s' where "generateTone l 220 (console_log Err (''Error loading audio for '' @ l @ '':'') s) = Done s'"
    and "console s' = console s @ [(Err, ''Error loading audio for '' @ l @ '':''),
           (Log, ''Playing fallback tone: 220Hz on layer '' @ l)]"
    and "\<exists>layer'. map_of (layers s') l = Some layer' \<and>
              sourceNode layer' = Some (OscillatorNode ''sine'' 220) \<and>
              currentSound layer' = Some ''tone/220Hz'' \<and> isPlaying layer'"
    using fallback_tone [OF l c] by blast
  then show ?thesis
    using True by (auto simp add: loadAndPlayAudio_try_def Let_def intro: exI [of _ "[]"])
next
  case False
  then have rejected: "media path = PlayRejected"
    using m by (cases "media path") simp_all
  define s2 where "s2 = modify_layer l
     (\<lambda>x. x\<lparr>audioElement := Some \<lparr>src = path, loop = loopLayers (config s), crossOrigin = ''anonymous''\<rparr>,
             sourceNode := Some (MediaElementSource path),
             currentSound := Some (soundType @ ''/'' @ soundName)\<rparr>) s"
  define r where "r = (if enableCrossfade (config s2) then fadeIn l s2 else Done s2)"
  have t2: "touches_layers_only s s2"
    by (simp add: s2_def)
  have c2: "audioContext s2 \<noteq> None"
    using c by (simp add: s2_def)
  have r_done: "r = Done (state_of r)"
    using not_threw_Done [OF fadeIn_returns [OF c2, of l]] by (simp add: r_def)
  have t3: "touches_layers_only s (state_of r)"
    by (rule touches_trans [OF t2]) (simp add: r_def)
  have l3: "map_of (layers (state_of r)) l \<noteq> None"
    using touches_has_layer [OF t3] l by simp
  have c3: "audioContext (state_of r) \<noteq> None"
    using touches_context [OF t3] c by simp
  obtain extra where extra: "console (state_of r) = console s @ extra"
    using touches_console [OF t3] by blast
  obtain s' where "generateTone l 220 (console_log Err (''Error loading audio for '' @ l @ '':'') (state_of r)) = Done s'"
    and "console s' = console (state_of r) @ [(Err, ''Error loading audio for '' @ l @ '':''),
           (Log, ''Playing fallback tone: 220Hz on layer '' @ l)]"
    and "\<exists>layer'. map_of (layers s') l = Some layer' \<and>
              sourceNode layer' = Some (OscillatorNode ''sine'' 220) \<and>
              currentSound layer' = Some ''tone/220Hz'' \<and> isPlaying layer'"
    using fallback_tone [OF l3 c3] by blast
  moreover have "loadAndPlayAudio_try media l soundType soundName path s =
      (case r of Throw e s3 \<Rightarrow> generateTone l 220 (console_log Err (''Error loading audio for '' @ l @ '':'') s3)
       | Done s3 \<Rightarrow> generateTone l 220 (console_log Err (''Error loading audio for '' @ l @ '':'') s3))"
  proof -
    obtain ctx where "audioContext s = Some ctx" using c by auto
    then show ?thesis
      by (simp add: loadAndPlayAudio_try_def Let_def r_def s2_def rejected split: outcome.splits)
  qed
  ultimately show ?thesis
    using r_done extra by (cases r) auto
qed

lemma loadAndPlayAudio_fallback:
  assumes l: "map_of (layers s) l \<noteq> None" and c: "audioContext s \<noteq> None"
    and nofile: "\<not> (soundType = ''noise'' \<and> soundName \<in> set [''white'', ''pink'', ''brown''])"
    and unresolved: "audioLibrary soundType soundName = None \<or>
       (\<exists>path. audioLibrary soundType soundName = Some path \<and> media path \<noteq> Loaded)"
  shows "\<exists>s'. loadAndPlayAudio media rnd l soundType soundName s = Done s' \<and>
           (\<exists>before msg. console s' = console s @ before @
               [(Err, msg), (Log, ''Playing fallback tone: 220Hz on layer '' @ l)]) \<and>
           (\<exists>layer'. map_of (layers s') l = Some layer' \<and>
              sourceNode layer' = Some (OscillatorNode ''sine'' 220) \<and>
              currentSound layer' = Some ''tone/220Hz'' \<and> isPlaying layer')"
proof -
  define s1 where "s1 = state_of (stopLayer l s)"
  have stop: "stopLayer l s = Done s1"
    unfolding s1_def by (rule not_threw_Done [OF stopLayer_returns [OF c]])
  have t1: "touches_layers_only s s1"
    by (simp add: s1_def)
  have l1: "map_of (layers s1) l \<noteq> None"
    using touches_has_layer [OF t1] l by simp
  have c1: "audioContext s1 \<noteq> None"
    using touches_context [OF t1] c by simp
  obtain extra where extra: "console s1 = console s @ extra"
    using touches_console [OF t1] by blast
  obtain layer where layer: "map_of (layers s) l = Some layer"
    using l by auto
  show ?thesis
  proof (cases "audioLibrary soundType soundName")
    case None
    obtain s' where "generateTone l 220
          (console_log Err (''Audio not found: '' @ soundType @ ''/'' @ soundName) s1) = Done s'"
      and "console s' = console s1 @ [(Err, ''Audio not found: '' @ soundType @ ''/'' @ soundName),
             (Log, ''Playing fallback tone: 220Hz on layer '' @ l)]"
      and "\<exists>layer'. map_of (layers s') l = Some layer' \<and>
              sourceNode layer' = Some (OscillatorNode ''sine'' 220) \<and>
              currentSound layer' = Some ''tone/220Hz'' \<and> isPlaying layer'"
      using fallback_tone [OF l1 c1] by blast
    moreover have "loadAndPlayAudio media rnd l soundType soundName s =
        generateTone l 220 (console_log Err (''Audio not found: '' @ soundType @ ''/'' @ soundName) s1)"
      using nofile None by (auto simp add: loadAndPlayAudio_def layer stop)
    ultimately show ?thesis
      using extra by auto
  next
    case (Some path)
    then have m: "media path \<noteq> Loaded"
      using unresolved by auto
    obtain s' where "loadAndPlayAudio_try media l soundType soundName path s1 = Done s'"
      and "\<exists>before msg. console s' = console s1 @ before @
               [(Err, msg), (Log, ''Playing fallback tone: 220Hz on layer '' @ l)]"
      and "\<exists>layer'. map_of (layers s') l = Some layer' \<and>
              sourceNode layer' = Some (OscillatorNode ''sine'' 220) \<and>
              currentSound layer' = Some ''tone/220Hz'' \<and> isPlaying layer'"
      using try_fallback [of s1 l media path soundType soundName, OF l1 c1 m] by blast
    moreover have "loadAndPlayAudio media rnd l soundType soundName s =
        loadAndPlayAudio_try media l soundType soundName path s1"
      using nofile Some by (auto simp add: loadAndPlayAudio_def layer stop)
    ultimately show ?thesis
      using extra by (metis append.assoc)
  qed
qed

subsection \<open>Steps that keep the context, the layers and the noise cache\<close>

lemma keeps_refl [simp]: "keeps_layout s s"
  by (simp add: keeps_layout_def)

lemma keeps_trans: "keeps_layout s s1 \<Longrightarrow> keeps_layout s1 s2 \<Longrightarrow> keeps_layout s s2"
  by (simp add: keeps_layout_def)

lemma touches_keeps: "touches_layers_only s s' \<Longrightarrow> keeps_layout s s'"
  by (simp add: touches_layers_only_def keeps_layout_def)

lemma keeps_and_then:
  assumes "keeps_layout s (state_of r)" and "\<And>s1. keeps_layout s1 (state_of (f s1))"
  shows "keeps_layout s (state_of (and_then r f))"
proof (cases r)
  case (Done s1)
  then show ?thesis using assms keeps_trans [of s s1 "state_of (f s1)"] by simp
next
  case (Throw e s1)
  then show ?thesis using assms by simp
qed

lemma touches_and_then:
  assumes "touches_layers_only s (state_of r)" and "\<And>s1. touches_layers_only s1 (state_of (f s1))"
  shows "touches_layers_only s (state_of (and_then r f))"
proof (cases r)
  case (Done s1)
  then show ?thesis using assms touches_trans [of s s1 "state_of (f s1)"] by simp
next
  case (Throw e s1)
  then show ?thesis using assms by simp
qed

lemma keeps_cache_update:
  "map_of (noiseGenerators s) c = None \<Longrightarrow>
     keeps_layout s (s\<lparr>noiseGenerators := AList.update c b (noiseGenerators s), randomCalls := n\<rparr>)"
  by (auto simp add: keeps_layout_def map_of_update)

lemma keeps_generateAndPlayNoise: "keeps_layout s (state_of (generateAndPlayNoise rnd l c s))"
proof (cases "map_of (layers s) l = None \<or> audioContext s = None")
  case True
  then show ?thesis by (auto simp add: generateAndPlayNoise_def split: option.splits)
next
  case False
  then obtain layer ctx where l: "map_of (layers s) l = Some layer" and c: "audioContext s = Some ctx"
    by auto
  define s1 where "s1 = (case map_of (noiseGenerators s) c of
       Some cached \<Rightarrow> s
     | None \<Rightarrow> s\<lparr>noiseGenerators := AList.update c (fst (createNoiseBuffer rnd (randomCalls s) ctx c)) (noiseGenerators s),
                 randomCalls := snd (createNoiseBuffer rnd (randomCalls s) ctx c)\<rparr>)"
  define b where "b = (case map_of (noiseGenerators s) c of
       Some cached \<Rightarrow> cached | None \<Rightarrow> fst (createNoiseBuffer rnd (randomCalls s) ctx c))"
  define s2 where "s2 = modify_layer l
     (\<lambda>x. x\<lparr>noiseSource := Some (BufferSource b True), sourceNode := Some (BufferSource b True),
             currentSound := Some (''noise/'' @ c), isPlaying := True\<rparr>) s1"
  have k1: "keeps_layout s s1"
    by (simp add: s1_def keeps_cache_update split: option.splits)
  have k2: "keeps_layout s1 s2"
    by (simp add: s2_def touches_keeps)
  have eq: "generateAndPlayNoise rnd l c s =
      and_then (if enableCrossfade (config s2) then fadeIn l s2 else Done s2)
        (\<lambda>s3. Done (console_log Log (''Playing '' @ c @ '' noise on layer '' @ l) s3))"
    by (cases "map_of (noiseGenerators s) c")
       (simp_all add: generateAndPlayNoise_def l c s1_def s2_def b_def Let_def case_prod_beta)
  have "keeps_layout s2 (state_of (and_then (if enableCrossfade (config s2) then fadeIn l s2 else Done s2)
        (\<lambda>s3. Done (console_log Log (''Playing '' @ c @ '' noise on layer '' @ l) s3))))"
    by (rule keeps_and_then) (simp_all add: touches_keeps)
  then show ?thesis
    unfolding eq using keeps_trans [OF keeps_trans [OF k1 k2]] by blast
qed

lemma touches_loadAndPlayAudio_try:
  "touches_layers_only s (state_of (loadAndPlayAudio_try media l soundType soundName path s))"
proof -
  define s2 where "s2 = modify_layer l
     (\<lambda>x. x\<lparr>audioElement := Some \<lparr>src = path, loop = loopLayers (config s), crossOrigin = ''anonymous''\<rparr>,
             sourceNode := Some (MediaElementSource path),
             currentSound := Some (soundType @ ''/'' @ soundName)\<rparr>) s"
  define r where "r = (if enableCrossfade (config s2) then fadeIn l s2 else Done s2)"
  have t2: "touches_layers_only s s2" by (simp add: s2_def)
  have t3: "touches_layers_only s (state_of r)"
    by (rule touches_trans [OF t2]) (simp add: r_def)
  have tone: "\<And>msg s'. touches_layers_only s' (state_of (generateTone l 220 (console_log Err msg s')))"
    by (rule touches_trans [OF touches_console_log touches_generateTone])
  have fin: "\<And>msg s'. touches_layers_only s' (console_log Log msg (modify_layer l (\<lambda>x. x\<lparr>isPlaying := True\<rparr>) s'))"
    by (rule touches_trans [OF touches_modify_layer touches_console_log])
  show ?thesis
    unfolding loadAndPlayAudio_try_def Let_def s2_def [symmetric] r_def [symmetric]
    using t3 tone fin touches_trans [OF t3]
    by (cases r) (auto simp add: Let_def)
qed

lemma keeps_loadAndPlayAudio:
  "keeps_layout s (state_of (loadAndPlayAudio media rnd l soundType soundName s))"
proof (cases "map_of (layers s) l")
  case None
  then show ?thesis by (simp add: loadAndPlayAudio_def)
next
  case (Some layer)
  have tone: "\<And>msg s'. keeps_layout s' (state_of (generateTone l 220 (console_log Err msg s')))"
    by (rule touches_keeps [OF touches_trans [OF touches_console_log touches_generateTone]])
  show ?thesis
    unfolding loadAndPlayAudio_def Some option.case
    by (rule keeps_and_then)
       (auto simp add: touches_keeps keeps_generateAndPlayNoise tone touches_loadAndPlayAudio_try
          split: option.splits)
qed


lemma touches_setLayerVolume: "touches_layers_only s (state_of (setLayerVolume l v s))"
proof (cases "map_of (layers s) l")
  case None
  then show ?thesis by (simp add: setLayerVolume_def)
next
  case (Some layer)
  have step: "\<And>f g. touches_layers_only s (modify_layer l g (modify_layer l f s))"
    by (rule touches_trans [OF touches_modify_layer touches_modify_layer])
  show ?thesis
    by (simp add: setLayerVolume_def Some Let_def step split: option.splits)
qed

lemma keeps_setMasterVolume: "keeps_layout s (state_of (setMasterVolume v s))"
  by (simp add: setMasterVolume_def Let_def keeps_layout_def split: option.splits)

lemma touches_stopAll_loop: "touches_layers_only s (state_of (stopAll_loop entries s))"
proof (induction entries arbitrary: s)
  case Nil
  show ?case by simp
next
  case (Cons entry entries)
  obtain layerId layer0 where entry: "entry = (layerId, layer0)" by (cases entry)
  show ?case
  proof (cases "map_of (layers s) layerId")
    case None
    then show ?thesis by (simp add: entry Cons.IH)
  next
    case (Some layer)
    have "touches_layers_only s (state_of (and_then (stopLayer layerId s) (stopAll_loop entries)))"
      by (rule touches_and_then) (simp_all add: Cons.IH)
    then show ?thesis by (simp add: entry Some Cons.IH)
  qed
qed

lemma touches_stopAll: "touches_layers_only s (state_of (stopAll s))"
  by (simp add: stopAll_def touches_stopAll_loop)

lemma keeps_playAll_loop: "keeps_layout s (playAll_loop media rnd entries s)"
proof (induction entries arbitrary: s)
  case Nil
  show ?case by simp
next
  case (Cons entry entries)
  obtain layerId layer where entry: "entry = (layerId, layer)" by (cases entry)
  show ?case
  proof (cases "currentSound layer")
    case None
    then show ?thesis by (simp add: entry Cons.IH)
  next
    case (Some cs)
    obtain soundType soundName where parts: "destructure2 (split_slash cs) = (soundType, soundName)"
      by (cases "destructure2 (split_slash cs)")
    have "keeps_layout s (playAll_loop media rnd entries
        (state_of (loadAndPlayAudio media rnd layerId soundType soundName s)))"
      by (rule keeps_trans [OF keeps_loadAndPlayAudio Cons.IH])
    then show ?thesis by (simp add: entry Some parts)
  qed
qed

lemma keeps_playAll: "keeps_layout s (playAll media rnd s)"
  by (simp add: playAll_def keeps_playAll_loop)

text \<open>Every command keeps an audio context that is there.\<close>

lemma keeps_context: "keeps_layout s s' \<Longrightarrow> audioContext s' = audioContext s"
  by (simp add: keeps_layout_def)

lemma context_stopLayerImmediately_fold:
  "audioContext (foldl (\<lambda>s' (t, target). stopLayerImmediately target s') s due) = audioContext s"
  by (induction due arbitrary: s) (simp_all add: case_prod_beta)

lemma exec_keeps_context:
  assumes "audioContext s \<noteq> None"
  shows "audioContext (state_of (exec rnd c s)) \<noteq> None"
proof (cases c)
  case (Initialize hw)
  then show ?thesis using assms by (simp add: initialize_def split: option.splits)
next
  case (CreateLayer l v)
  then show ?thesis using assms by (auto simp add: createLayer_def Let_def split: option.splits)
next
  case (Play media l t n)
  then show ?thesis using assms keeps_context [OF keeps_loadAndPlayAudio] by simp
next
  case (Stop l)
  then show ?thesis using assms touches_context [OF touches_stopLayer] by simp
next
  case StopAll
  then show ?thesis using assms touches_context [OF touches_stopAll] by simp
next
  case (PlayAll media)
  then show ?thesis using assms keeps_context [OF keeps_playAll] by simp
next
  case (SetLayerVolume l v)
  then show ?thesis using assms touches_context [OF touches_setLayerVolume] by simp
next
  case (SetMasterVolume v)
  then show ?thesis using assms keeps_context [OF keeps_setMasterVolume] by simp
next
  case (UpdateConfig patch)
  then show ?thesis using assms by (simp add: updateConfig_def Let_def split: option.splits)
next
  case Dispose
  have "audioContext (state_of (stopAll s)) \<noteq> None"
    using assms touches_context [OF touches_stopAll] by simp
  then show ?thesis using Dispose by (cases "stopAll s") (auto simp add: dispose_def)
next
  case (Advance dt)
  then show ?thesis
    using assms by (auto simp add: advance_def Let_def context_stopLayerImmediately_fold)
qed

lemma run_keeps_context:
  "audioContext s \<noteq> None \<Longrightarrow> audioContext (run rnd cmds s) \<noteq> None"
proof (induction cmds arbitrary: s)
  case Nil
  then show ?case by simp
next
  case (Cons c cmds)
  have "audioContext (run rnd cmds (state_of (exec rnd c s))) \<noteq> None"
    by (rule Cons.IH [OF exec_keeps_context [OF Cons.prems]])
  then show ?case by simp
qed

subsection \<open>A layer implies a context; the cache only grows\<close>

lemma keeps_context_present:
  "keeps_layout s s' \<Longrightarrow> context_present s \<Longrightarrow> context_present s'"
  by (auto simp add: keeps_layout_def context_present_def)

lemma touches_fold_teardown:
  "touches_layers_only s (foldl (\<lambda>s' (t, target). stopLayerImmediately target s') s due)"
proof (induction due arbitrary: s)
  case Nil
  show ?case by simp
next
  case (Cons d due)
  show ?case
    using touches_trans [OF touches_stopLayerImmediately Cons.IH]
    by (simp add: case_prod_beta)
qed

lemma teardown_fold_fields:
  "map fst (layers (foldl (\<lambda>s' (t, target). stopLayerImmediately target s') s due)) = map fst (layers s)"
  "noiseGenerators (foldl (\<lambda>s' (t, target). stopLayerImmediately target s') s due) = noiseGenerators s"
  "masterGain (foldl (\<lambda>s' (t, target). stopLayerImmediately target s') s due) = masterGain s"
  using touches_fold_teardown [of s due] by (simp_all add: touches_layers_only_def)

lemma keys_advance: "map fst (layers (advance dt s)) = map fst (layers s)"
  by (simp add: advance_def Let_def teardown_fold_fields)

lemma cache_advance: "noiseGenerators (advance dt s) = noiseGenerators s"
  by (simp add: advance_def Let_def teardown_fold_fields)

lemma exec_context_present:
  assumes "context_present s"
  shows "context_present (state_of (exec rnd c s))"
proof (cases c)
  case (Initialize hw)
  then show ?thesis
    using assms by (auto simp add: initialize_def context_present_def split: option.splits)
next
  case (CreateLayer l v)
  then show ?thesis
    using assms by (auto simp add: createLayer_def Let_def context_present_def split: option.splits)
next
  case (Play media l t n)
  then show ?thesis using assms keeps_context_present [OF keeps_loadAndPlayAudio] by simp
next
  case (Stop l)
  then show ?thesis
    using assms keeps_context_present [OF touches_keeps [OF touches_stopLayer]] by simp
next
  case StopAll
  then show ?thesis
    using assms keeps_context_present [OF touches_keeps [OF touches_stopAll]] by simp
next
  case (PlayAll media)
  then show ?thesis using assms keeps_context_present [OF keeps_playAll] by simp
next
  case (SetLayerVolume l v)
  then show ?thesis
    using assms keeps_context_present [OF touches_keeps [OF touches_setLayerVolume]] by simp
next
  case (SetMasterVolume v)
  then show ?thesis using assms keeps_context_present [OF keeps_setMasterVolume] by simp
next
  case (UpdateConfig patch)
  then show ?thesis
    using assms by (auto simp add: updateConfig_def Let_def context_present_def split: option.splits)
next
  case Dispose
  have "context_present (state_of (stopAll s))"
    using assms keeps_context_present [OF touches_keeps [OF touches_stopAll]] by simp
  then show ?thesis
    using Dispose by (cases "stopAll s") (auto simp add: dispose_def context_present_def)
next
  case (Advance dt)
  have "layers (advance dt s) \<noteq> [] \<Longrightarrow> layers s \<noteq> []"
    using keys_advance [of dt s] by auto
  moreover have "audioContext s \<noteq> None \<Longrightarrow> audioContext (advance dt s) \<noteq> None"
    using exec_keeps_context [of s rnd "Advance dt"] by simp
  ultimately show ?thesis
    using assms Advance by (auto simp add: context_present_def)
qed

lemma run_context_present:
  "context_present s \<Longrightarrow> context_present (run rnd cmds s)"
proof (induction cmds arbitrary: s)
  case Nil
  then show ?case by simp
next
  case (Cons c cmds)
  have "context_present (run rnd cmds (state_of (exec rnd c s)))"
    by (rule Cons.IH [OF exec_context_present [OF Cons.prems]])
  then show ?case by simp
qed

lemma reachable_context:
  assumes "map_of (layers (run rnd cmds constructor)) l \<noteq> None"
  shows "audioContext (run rnd cmds constructor) \<noteq> None"
proof -
  have "context_present constructor"
    by (simp add: context_present_def constructor_def)
  then have "context_present (run rnd cmds constructor)"
    by (rule run_context_present)
  moreover have "layers (run rnd cmds constructor) \<noteq> []"
    using assms by auto
  ultimately show ?thesis by (simp add: context_present_def)
qed

lemma keeps_cache:
  "keeps_layout s s' \<Longrightarrow> map_of (noiseGenerators s) col = Some b \<Longrightarrow>
     map_of (noiseGenerators s') col = Some b"
  by (simp add: keeps_layout_def)

lemma exec_keeps_cache:
  assumes "c \<noteq> Dispose" and "map_of (noiseGenerators s) col = Some b"
  shows "map_of (noiseGenerators (state_of (exec rnd c s))) col = Some b"
proof (cases c)
  case (Initialize hw)
  then show ?thesis using assms by (simp add: initialize_def split: option.splits)
next
  case (CreateLayer l v)
  then show ?thesis using assms by (simp add: createLayer_def Let_def split: option.splits)
next
  case (Play media l t n)
  then show ?thesis using assms keeps_cache [OF keeps_loadAndPlayAudio] by simp
next
  case (Stop l)
  then show ?thesis using assms keeps_cache [OF touches_keeps [OF touches_stopLayer]] by simp
next
  case StopAll
  then show ?thesis using assms keeps_cache [OF touches_keeps [OF touches_stopAll]] by simp
next
  case (PlayAll media)
  then show ?thesis using assms keeps_cache [OF keeps_playAll] by simp
next
  case (SetLayerVolume l v)
  then show ?thesis
    using assms keeps_cache [OF touches_keeps [OF touches_setLayerVolume]] by simp
next
  case (SetMasterVolume v)
  then show ?thesis using assms keeps_cache [OF keeps_setMasterVolume] by simp
next
  case (UpdateConfig patch)
  then show ?thesis using assms by (simp add: updateConfig_def Let_def split: option.splits)
next
  case Dispose
  then show ?thesis using assms by simp
next
  case (Advance dt)
  then show ?thesis using assms by (simp add: cache_advance)
qed

lemma run_keeps_cache:
  "Dispose \<notin> set cmds \<Longrightarrow> map_of (noiseGenerators s) col = Some b \<Longrightarrow>
     map_of (noiseGenerators (run rnd cmds s)) col = Some b"
proof (induction cmds arbitrary: s)
  case Nil
  then show ?case by simp
next
  case (Cons c cmds)
  have "c \<noteq> Dispose" and rest: "Dispose \<notin> set cmds"
    using Cons.prems(1) by auto
  then have "map_of (noiseGenerators (state_of (exec rnd c s))) col = Some b"
    using Cons.prems(2) by (intro exec_keeps_cache)
  then have "map_of (noiseGenerators (run rnd cmds (state_of (exec rnd c s)))) col = Some b"
    by (rule Cons.IH [OF rest])
  then show ?case by simp
qed

subsection \<open>Playing a generated color\<close>

lemma sourceNode_fadeIn:
  "map_option sourceNode (map_of (layers (state_of (fadeIn l s))) k) =
     map_option sourceNode (map_of (layers s) k)"
  by (cases "map_of (layers s) l")
     (auto simp add: fadeIn_def Let_def layers_modify_layer split: option.splits)

lemma generateAndPlayNoise_eq:
  assumes l: "map_of (layers s) l = Some layer" and c: "audioContext s = Some ctx"
    and b: "b = (case map_of (noiseGenerators s) col of
                   Some cached \<Rightarrow> cached
                 | None \<Rightarrow> fst (createNoiseBuffer rnd (randomCalls s) ctx col))"
    and s1: "s1 = (case map_of (noiseGenerators s) col of
                     Some cached \<Rightarrow> s
                   | None \<Rightarrow> s\<lparr>noiseGenerators := AList.update col b (noiseGenerators s),
                               randomCalls := snd (createNoiseBuffer rnd (randomCalls s) ctx col)\<rparr>)"
    and s2: "s2 = modify_layer l
                    (\<lambda>x. x\<lparr>noiseSource := Some (BufferSource b True),
                            sourceNode := Some (BufferSource b True),
                            currentSound := Some (''noise/'' @ col), isPlaying := True\<rparr>) s1"
  shows "generateAndPlayNoise rnd l col s =
      and_then (if enableCrossfade (config s2) then fadeIn l s2 else Done s2)
        (\<lambda>s3. Done (console_log Log (''Playing '' @ col @ '' noise on layer '' @ l) s3))"
  by (cases "map_of (noiseGenerators s) col")
     (simp_all add: generateAndPlayNoise_def l c b s1 s2 Let_def case_prod_beta)

lemma generateAndPlayNoise_result:
  assumes l: "map_of (layers s) l = Some layer" and c: "audioContext s = Some ctx"
    and b: "b = (case map_of (noiseGenerators s) col of
                   Some cached \<Rightarrow> cached
                 | None \<Rightarrow> fst (createNoiseBuffer rnd (randomCalls s) ctx col))"
    and s1: "s1 = (case map_of (noiseGenerators s) col of
                     Some cached \<Rightarrow> s
                   | None \<Rightarrow> s\<lparr>noiseGenerators := AList.update col b (noiseGenerators s),
                               randomCalls := snd (createNoiseBuffer rnd (randomCalls s) ctx col)\<rparr>)"
  shows "\<not> threw (generateAndPlayNoise rnd l col s)"
    and "touches_layers_only s1 (state_of (generateAndPlayNoise rnd l col s))"
    and "map_option sourceNode (map_of (layers (state_of (generateAndPlayNoise rnd l col s))) l)
           = Some (Some (BufferSource b True))"
proof -
  define s2 where "s2 = modify_layer l
                    (\<lambda>x. x\<lparr>noiseSource := Some (BufferSource b True),
                            sourceNode := Some (BufferSource b True),
                            currentSound := Some (''noise/'' @ col), isPlaying := True\<rparr>) s1"
  define r where "r = (if enableCrossfade (config s2) then fadeIn l s2 else Done s2)"
  have eq: "generateAndPlayNoise rnd l col s =
      and_then r (\<lambda>s3. Done (console_log Log (''Playing '' @ col @ '' noise on layer '' @ l) s3))"
    unfolding r_def by (rule generateAndPlayNoise_eq [OF l c b s1 s2_def])
  have c1: "audioContext s1 = Some ctx"
    by (simp add: s1 c split: option.splits)
  have l1: "map_of (layers s1) l = Some layer"
    by (simp add: s1 l split: option.splits)
  have c2: "audioContext s2 \<noteq> None"
    by (simp add: s2_def c1)
  have r_done: "r = Done (state_of r)"
    using not_threw_Done [OF fadeIn_returns [OF c2, of l]] by (simp add: r_def)
  have t2: "touches_layers_only s1 s2"
    by (simp add: s2_def)
  have t3: "touches_layers_only s1 (state_of r)"
    by (rule touches_trans [OF t2]) (simp add: r_def)
  have fin: "state_of (generateAndPlayNoise rnd l col s) =
      console_log Log (''Playing '' @ col @ '' noise on layer '' @ l) (state_of r)"
    unfolding eq by (subst r_done) simp
  show "\<not> threw (generateAndPlayNoise rnd l col s)"
    unfolding eq by (subst r_done) simp
  show "touches_layers_only s1 (state_of (generateAndPlayNoise rnd l col s))"
    unfolding fin by (rule touches_trans [OF t3 touches_console_log])
  have "map_option sourceNode (map_of (layers (state_of r)) l) = map_option sourceNode (map_of (layers s2) l)"
    by (simp add: r_def sourceNode_fadeIn)
  also have "\<dots> = Some (Some (BufferSource b True))"
    by (simp add: s2_def layers_modify_layer l1)
  finally show "map_option sourceNode (map_of (layers (state_of (generateAndPlayNoise rnd l col s))) l)
           = Some (Some (BufferSource b True))"
    unfolding fin by simp
qed

lemma touches_cache:
  "touches_layers_only s s' \<Longrightarrow> noiseGenerators s' = noiseGenerators s \<and> randomCalls s' = randomCalls s"
  by (simp add: touches_layers_only_def)

lemma play_noise_eq:
  assumes l: "map_of (layers s) l \<noteq> None" and c: "audioContext s \<noteq> None"
    and col: "col \<in> set [''white'', ''pink'', ''brown'']"
  shows "loadAndPlayAudio media rnd l ''noise'' col s =
           generateAndPlayNoise rnd l col (state_of (stopLayer l s))"
proof -
  obtain layer where layer: "map_of (layers s) l = Some layer" using l by auto
  have "stopLayer l s = Done (state_of (stopLayer l s))"
    by (rule not_threw_Done [OF stopLayer_returns [OF c]])
  then have "and_then (stopLayer l s) (generateAndPlayNoise rnd l col) =
      generateAndPlayNoise rnd l col (state_of (stopLayer l s))"
    by (metis and_then.simps(1))
  then show ?thesis
    using col by (simp add: loadAndPlayAudio_def layer)
qed

lemma play_noise_hit:
  assumes l: "map_of (layers s) l \<noteq> None" and c: "audioContext s \<noteq> None"
    and col: "col \<in> set [''white'', ''pink'', ''brown'']"
    and hit: "map_of (noiseGenerators s) col = Some b"
  shows "touches_layers_only s (state_of (loadAndPlayAudio media rnd l ''noise'' col s))"
    and "layer_source (state_of (loadAndPlayAudio media rnd l ''noise'' col s)) l
           = Some (Some (BufferSource b True))"
proof -
  define s0 where "s0 = state_of (stopLayer l s)"
  have t0: "touches_layers_only s s0" by (simp add: s0_def)
  obtain layer0 where l0: "map_of (layers s0) l = Some layer0"
    using touches_has_layer [OF t0, of l] l by auto
  obtain ctx where c0: "audioContext s0 = Some ctx"
    using touches_context [OF t0] c by auto
  have hit0: "map_of (noiseGenerators s0) col = Some b"
    using touches_cache [OF t0] hit by simp
  have eq: "loadAndPlayAudio media rnd l ''noise'' col s = generateAndPlayNoise rnd l col s0"
    unfolding s0_def by (rule play_noise_eq [OF l c col])
  have b: "b = (case map_of (noiseGenerators s0) col of
                   Some cached \<Rightarrow> cached
                 | None \<Rightarrow> fst (createNoiseBuffer rnd (randomCalls s0) ctx col))"
    by (simp add: hit0)
  have s1: "s0 = (case map_of (noiseGenerators s0) col of
                     Some cached \<Rightarrow> s0
                   | None \<Rightarrow> s0\<lparr>noiseGenerators := AList.update col b (noiseGenerators s0),
                               randomCalls := snd (createNoiseBuffer rnd (randomCalls s0) ctx col)\<rparr>)"
    by (simp add: hit0)
  show "touches_layers_only s (state_of (loadAndPlayAudio media rnd l ''noise'' col s))"
    unfolding eq by (rule touches_trans [OF t0 generateAndPlayNoise_result(2) [OF l0 c0 b s1]])
  show "layer_source (state_of (loadAndPlayAudio media rnd l ''noise'' col s)) l
           = Some (Some (BufferSource b True))"
    unfolding eq layer_source_def by (rule generateAndPlayNoise_result(3) [OF l0 c0 b s1])
qed

lemma play_noise_miss:
  assumes l: "map_of (layers s) l \<noteq> None" and c: "audioContext s = Some ctx"
    and col: "col \<in> set [''white'', ''pink'', ''brown'']"
    and miss: "map_of (noiseGenerators s) col = None"
  shows "map_of (noiseGenerators (state_of (loadAndPlayAudio media rnd l ''noise'' col s))) col
           = Some (fst (createNoiseBuffer rnd (randomCalls s) ctx col))"
proof -
  define s0 where "s0 = state_of (stopLayer l s)"
  have t0: "touches_layers_only s s0" by (simp add: s0_def)
  obtain layer0 where l0: "map_of (layers s0) l = Some layer0"
    using touches_has_layer [OF t0, of l] l by auto
  have c0: "audioContext s0 = Some ctx"
    using touches_context [OF t0] c by simp
  have miss0: "map_of (noiseGenerators s0) col = None" and calls0: "randomCalls s0 = randomCalls s"
    using touches_cache [OF t0] miss by simp_all
  have eq: "loadAndPlayAudio media rnd l ''noise'' col s = generateAndPlayNoise rnd l col s0"
    unfolding s0_def by (rule play_noise_eq [OF l _ col]) (simp add: c)
  define b where "b = fst (createNoiseBuffer rnd (randomCalls s0) ctx col)"
  define s1 where "s1 = s0\<lparr>noiseGenerators := AList.update col b (noiseGenerators s0),
                               randomCalls := snd (createNoiseBuffer rnd (randomCalls s0) ctx col)\<rparr>"
  have b: "b = (case map_of (noiseGenerators s0) col of
                   Some cached \<Rightarrow> cached
                 | None \<Rightarrow> fst (createNoiseBuffer rnd (randomCalls s0) ctx col))"
    by (simp add: miss0 b_def)
  have s1: "s1 = (case map_of (noiseGenerators s0) col of
                     Some cached \<Rightarrow> s0
                   | None \<Rightarrow> s0\<lparr>noiseGenerators := AList.update col b (noiseGenerators s0),
                               randomCalls := snd (createNoiseBuffer rnd (randomCalls s0) ctx col)\<rparr>)"
    by (simp add: miss0 s1_def)
  have "touches_layers_only s1 (state_of (generateAndPlayNoise rnd l col s0))"
    by (rule generateAndPlayNoise_result(2) [OF l0 c0 b s1])
  then have "noiseGenerators (state_of (generateAndPlayNoise rnd l col s0)) = noiseGenerators s1"
    using touches_cache by blast
  then show ?thesis
    unfolding eq by (simp add: s1_def b_def map_of_update calls0)
qed

lemma play_noise_caches:
  assumes l: "map_of (layers s) l \<noteq> None" and c: "audioContext s \<noteq> None"
    and col: "col \<in> set [''white'', ''pink'', ''brown'']"
  shows "map_of (noiseGenerators (state_of (loadAndPlayAudio media rnd l ''noise'' col s))) col \<noteq> None"
proof (cases "map_of (noiseGenerators s) col")
  case None
  obtain ctx where "audioContext s = Some ctx" using c by auto
  then show ?thesis using play_noise_miss [OF l _ col None] by simp
next
  case (Some b)
  show ?thesis
    using touches_cache [OF play_noise_hit(1) [OF l c col Some]] Some by simp
qed

text \<open>The definitions a run of concrete commands unfolds.\<close>

lemmas engine_defs =
  constructor_def initialize_def createLayer_def stopLayerImmediately_def fadeIn_def fadeOut_def
  stopLayer_def generateTone_def loadAndPlayAudio_try_def
  loadAndPlayAudio_def setLayerVolume_def setMasterVolume_def stopAll_def playAll_def
  playAll_targets_def updateConfig_def dispose_def advance_def console_log_def modify_layer_def
  audioLibrary_def cancelScheduledValues_def setValueAtTime_def linearRampToValueAtTime_def
  paramValue_def nodeTime_def

text \<open>The engine after \<^verbatim>\<open>initialize()\<close> and one \<^verbatim>\<open>createLayer\<close>.\<close>

lemma start_state:
  "run rnd [Initialize (Some rate), CreateLayer l v] constructor =
     \<lparr>audioContext = Some \<lparr>contextSampleRate = rate, currentTime = 0, closed = False\<rparr>,
      masterGain = Some [SetValueAtTime 0.7 0],
      layers = [(l, \<lparr>lid = l, audioElement = None, sourceNode = None,
                     gainNode = [SetValueAtTime (case v of None \<Rightarrow> 0.6 | Some x \<Rightarrow> x) 0],
                     analyserNode = \<lparr>fftSize = 256, smoothingTimeConstant = 0.8\<rparr>,
                     currentSound = None, isPlaying = False,
                     volume = (case v of None \<Rightarrow> 0.6 | Some x \<Rightarrow> x),
                     noiseBuffer = None, noiseSource = None\<rparr>)],
      isInitialized = True, noiseGenerators = [],
      config = \<lparr>fadeDuration = 1.0, enableCrossfade = True, loopLayers = True, sampleRate = 44100\<rparr>,
      timers = [], wallClock = 0,
      console = [(Log, ''Audio Engine initialized successfully''), (Log, ''Created layer: '' @ l)],
      randomCalls = 0\<rparr>"
  by (simp add: engine_defs Let_def)

text \<open>
  Claim C7. A first request to play a generated color leaves its buffer \<open>b\<close> in the
  cache. After any commands that do not dispose of the engine, a later request for the
  same color, on any layer and with any random source, leaves the cache and the count of
  \<^verbatim>\<open>Math.random()\<close> calls as they were, so the generator has not run, and binds a looping
  source over the same buffer \<open>b\<close> to the layer if the engine has it.
\<close>

theorem noise_buffer_generated_once:
  assumes col: "col \<in> set [''white'', ''pink'', ''brown'']"
    and l: "map_of (layers s) l \<noteq> None" and c: "audioContext s \<noteq> None"
    and alive: "Dispose \<notin> set cmds"
  shows "\<exists>b. map_of (noiseGenerators (state_of (loadAndPlayAudio media rnd l ''noise'' col s))) col = Some b \<and>
      (let s2 = run rnd cmds (state_of (loadAndPlayAudio media rnd l ''noise'' col s));
           s3 = state_of (loadAndPlayAudio media' rnd' l' ''noise'' col s2)
       in noiseGenerators s3 = noiseGenerators s2 \<and> randomCalls s3 = randomCalls s2 \<and>
          map_of (noiseGenerators s3) col = Some b \<and>
          layer_source s3 l' = map_option (\<lambda>layer. Some (BufferSource b True)) (map_of (layers s2) l'))"
proof -
  define s1 where "s1 = state_of (loadAndPlayAudio media rnd l ''noise'' col s)"
  define s2 where "s2 = run rnd cmds s1"
  define s3 where "s3 = state_of (loadAndPlayAudio media' rnd' l' ''noise'' col s2)"
  obtain b where b1: "map_of (noiseGenerators s1) col = Some b"
    using play_noise_caches [OF l c col, of media rnd] by (auto simp add: s1_def)
  have "keeps_layout s s1"
    unfolding s1_def by (rule keeps_loadAndPlayAudio)
  then have c1: "audioContext s1 \<noteq> None"
    using keeps_context c by simp
  have c2: "audioContext s2 \<noteq> None"
    unfolding s2_def by (rule run_keeps_context [OF c1])
  have b2: "map_of (noiseGenerators s2) col = Some b"
    unfolding s2_def by (rule run_keeps_cache [OF alive b1])
  have later: "noiseGenerators s3 = noiseGenerators s2 \<and> randomCalls s3 = randomCalls s2 \<and>
      layer_source s3 l' = map_option (\<lambda>layer. Some (BufferSource b True)) (map_of (layers s2) l')"
  proof (cases "map_of (layers s2) l'")
    case None
    then show ?thesis by (simp add: s3_def loadAndPlayAudio_def layer_source_def)
  next
    case (Some layer')
    then have l2: "map_of (layers s2) l' \<noteq> None" by simp
    show ?thesis
      using touches_cache [OF play_noise_hit(1) [OF l2 c2 col b2, of media' rnd']]
        play_noise_hit(2) [OF l2 c2 col b2, of media' rnd'] Some
      by (simp add: s3_def)
  qed
  then have "map_of (noiseGenerators s3) col = Some b"
    using b2 by simp
  then show ?thesis
    using b1 later by (simp add: s1_def s2_def s3_def Let_def)
qed

theorem noise_buffer_generated_once_witness:
  "''white'' \<in> set [''white'', ''pink'', ''brown''] \<and>
   map_of (layers (run (\<lambda>n. 0) [Initialize (Some 44100), CreateLayer ''noise'' None] constructor)) ''noise'' \<noteq> None \<and>
   audioContext (run (\<lambda>n. 0) [Initialize (Some 44100), CreateLayer ''noise'' None] constructor) \<noteq> None \<and>
   Dispose \<notin> set [Stop ''noise'', Advance 2] \<and>
   (\<exists>b. map_of (noiseGenerators (state_of (loadAndPlayAudio (\<lambda>p. Loaded) (\<lambda>n. 0) ''noise'' ''noise'' ''white''
            (run (\<lambda>n. 0) [Initialize (Some 44100), CreateLayer ''noise'' None] constructor)))) ''white'' = Some b \<and>
      (let s2 = run (\<lambda>n. 0) [Stop ''noise'', Advance 2]
                  (state_of (loadAndPlayAudio (\<lambda>p. Loaded) (\<lambda>n. 0) ''noise'' ''noise'' ''white''
                     (run (\<lambda>n. 0) [Initialize (Some 44100), CreateLayer ''noise'' None] constructor)));
           s3 = state_of (loadAndPlayAudio (\<lambda>p. Loaded) (\<lambda>n. 1 / 2) ''noise'' ''noise'' ''white'' s2)
       in noiseGenerators s3 = noiseGenerators s2 \<and> randomCalls s3 = randomCalls s2 \<and>
          map_of (noiseGenerators s3) ''white'' = Some b \<and>
          layer_source s3 ''noise'' =
            map_option (\<lambda>layer. Some (BufferSource b True)) (map_of (layers s2) ''noise'')))"
proof -
  let ?s = "run (\<lambda>n. 0) [Initialize (Some 44100), CreateLayer ''noise'' None] constructor"
  have h1: "''white'' \<in> set [''white'', ''pink'', ''brown'']" by simp
  have h2: "map_of (layers ?s) ''noise'' \<noteq> None" unfolding start_state by simp
  have h3: "audioContext ?s \<noteq> None" unfolding start_state by simp
  have h4: "Dispose \<notin> set [Stop ''noise'', Advance 2]" by simp
  show ?thesis
    using h1 h2 h3 h4
      noise_buffer_generated_once [OF h1 h2 h3 h4, of "\<lambda>p. Loaded" "\<lambda>n. 0" "\<lambda>p. Loaded" "\<lambda>n. 1 / 2" "''noise''"]
    by blast
qed

subsection \<open>Buffer length, analyser data\<close>

text \<open>
  Claim C3, as the code has it. For every noise color, the buffer that a first request
  generates and caches has \<open>2 * audioContext.sampleRate\<close> samples, the rate of the audio
  context; the option \<open>config.sampleRate\<close> is not read.
\<close>

theorem noise_buffer_length:
  assumes "map_of (layers s) l \<noteq> None" and "audioContext s = Some ctx"
    and "col \<in> set [''white'', ''pink'', ''brown'']"
    and "map_of (noiseGenerators s) col = None"
  shows "\<exists>b. map_of (noiseGenerators (state_of (loadAndPlayAudio media rnd l ''noise'' col s))) col = Some b \<and>
           length (channelData b) = 2 * contextSampleRate ctx"
  using play_noise_miss [OF assms, of media rnd] by (simp add: length_createNoiseBuffer)

theorem noise_buffer_length_witness:
  "map_of (layers (run (\<lambda>n. 0) [Initialize (Some 48000), CreateLayer ''noise'' None] constructor)) ''noise'' \<noteq> None \<and>
   audioContext (run (\<lambda>n. 0) [Initialize (Some 48000), CreateLayer ''noise'' None] constructor) =
     Some \<lparr>contextSampleRate = 48000, currentTime = 0, closed = False\<rparr> \<and>
   ''pink'' \<in> set [''white'', ''pink'', ''brown''] \<and>
   map_of (noiseGenerators (run (\<lambda>n. 0) [Initialize (Some 48000), CreateLayer ''noise'' None] constructor)) ''pink'' = None \<and>
   (\<exists>b. map_of (noiseGenerators (state_of (loadAndPlayAudio (\<lambda>p. Loaded) (\<lambda>n. 0) ''noise'' ''noise'' ''pink''
           (run (\<lambda>n. 0) [Initialize (Some 48000), CreateLayer ''noise'' None] constructor)))) ''pink'' = Some b \<and>
         length (channelData b) = 96000)"
proof -
  let ?s = "run (\<lambda>n. 0) [Initialize (Some 48000), CreateLayer ''noise'' None] constructor"
  have h1: "map_of (layers ?s) ''noise'' \<noteq> None" unfolding start_state by simp
  have h2: "audioContext ?s = Some \<lparr>contextSampleRate = 48000, currentTime = 0, closed = False\<rparr>"
    unfolding start_state by simp
  have h3: "''pink'' \<in> set [''white'', ''pink'', ''brown'']" by simp
  have h4: "map_of (noiseGenerators ?s) ''pink'' = None" unfolding start_state by simp
  show ?thesis
    using h1 h2 h3 h4 noise_buffer_length [OF h1 h2 h3 h4, of "\<lambda>p. Loaded" "\<lambda>n. 0"]
    by simp
qed

text \<open>
  The claim as stated fails: the constructor sets \<open>config.sampleRate\<close> to 44100; on a
  context that runs at 48000 Hz the white buffer has 96000 samples, not \<open>2 * 44100\<close>.
\<close>

theorem noise_buffer_length_ignores_config:
  "\<exists>b. map_of (noiseGenerators (state_of (loadAndPlayAudio (\<lambda>p. Loaded) (\<lambda>n. 0) ''noise'' ''noise'' ''white''
           (run (\<lambda>n. 0) [Initialize (Some 48000), CreateLayer ''noise'' None] constructor)))) ''white'' = Some b \<and>
        length (channelData b) = 96000 \<and>
        2 * sampleRate (config (state_of (loadAndPlayAudio (\<lambda>p. Loaded) (\<lambda>n. 0) ''noise'' ''noise'' ''white''
           (run (\<lambda>n. 0) [Initialize (Some 48000), CreateLayer ''noise'' None] constructor)))) = 88200"
proof -
  let ?s = "run (\<lambda>n. 0) [Initialize (Some 48000), CreateLayer ''noise'' None] constructor"
  let ?s' = "state_of (loadAndPlayAudio (\<lambda>p. Loaded) (\<lambda>n. 0) ''noise'' ''noise'' ''white'' ?s)"
  have h1: "map_of (layers ?s) ''noise'' \<noteq> None" unfolding start_state by simp
  have h2: "audioContext ?s = Some \<lparr>contextSampleRate = 48000, currentTime = 0, closed = False\<rparr>"
    unfolding start_state by simp
  have h3: "''white'' \<in> set [''white'', ''pink'', ''brown'']" by simp
  have h4: "map_of (noiseGenerators ?s) ''white'' = None" unfolding start_state by simp
  have "keeps_layout ?s ?s'"
    by (rule keeps_loadAndPlayAudio)
  then have "config ?s' = config ?s"
    by (simp add: keeps_layout_def)
  then have cfg: "2 * sampleRate (config ?s') = 88200"
    unfolding start_state by simp
  show ?thesis
    using play_noise_miss [OF h1 h2 h3 h4, of "\<lambda>p. Loaded" "\<lambda>n. 0"] cfg
    by (simp add: length_createNoiseBuffer)
qed

text \<open>
  Claim C10. \<^verbatim>\<open>getAnalyserData\<close> returns \<^verbatim>\<open>null\<close> for an unknown layer and for a layer that
  is not playing; for a playing layer it returns an array of \<open>frequencyBinCount\<close> bytes.
\<close>

theorem getAnalyserData_null_unless_playing:
  "(map_of (layers s) layerId = None \<longrightarrow> getAnalyserData waveform layerId s = None) \<and>
   (\<forall>layer. map_of (layers s) layerId = Some layer \<and> \<not> isPlaying layer \<longrightarrow>
      getAnalyserData waveform layerId s = None) \<and>
   (\<forall>layer. map_of (layers s) layerId = Some layer \<and> isPlaying layer \<longrightarrow>
      (\<exists>bytes. getAnalyserData waveform layerId s = Some bytes \<and>
         length bytes = frequencyBinCount (analyserNode layer)))"
  by (simp add: getAnalyserData_def Let_def)

lemma two_layers_state:
  "map_of (layers (run rnd [Initialize (Some 48000), CreateLayer ''nature'' (Some 0.6),
       CreateLayer ''music'' None, Play (\<lambda>p. Loaded) ''nature'' ''nature'' ''rain''] constructor)) =
     map_of [(''nature'', \<lparr>lid = ''nature'',
                 audioElement = Some \<lparr>src = ''assets/audio/nature/rain.mp3'', loop = True,
                                      crossOrigin = ''anonymous''\<rparr>,
                 sourceNode = Some (MediaElementSource ''assets/audio/nature/rain.mp3''),
                 gainNode = [SetValueAtTime 0 0, LinearRampToValueAtTime 0.6 1],
                 analyserNode = \<lparr>fftSize = 256, smoothingTimeConstant = 0.8\<rparr>,
                 currentSound = Some ''nature/rain'', isPlaying = True, volume = 0.6,
                 noiseBuffer = None, noiseSource = None\<rparr>),
             (''music'', \<lparr>lid = ''music'', audioElement = None, sourceNode = None,
                 gainNode = [SetValueAtTime 0.6 0],
                 analyserNode = \<lparr>fftSize = 256, smoothingTimeConstant = 0.8\<rparr>,
                 currentSound = None, isPlaying = False, volume = 0.6,
                 noiseBuffer = None, noiseSource = None\<rparr>)]"
  by (simp add: engine_defs Let_def)

theorem getAnalyserData_null_unless_playing_witness:
  "getAnalyserData (\<lambda>i. 128) ''ghost''
     (run (\<lambda>n. 0) [Initialize (Some 48000), CreateLayer ''nature'' (Some 0.6),
       CreateLayer ''music'' None, Play (\<lambda>p. Loaded) ''nature'' ''nature'' ''rain''] constructor) = None \<and>
   getAnalyserData (\<lambda>i. 128) ''music''
     (run (\<lambda>n. 0) [Initialize (Some 48000), CreateLayer ''nature'' (Some 0.6),
       CreateLayer ''music'' None, Play (\<lambda>p. Loaded) ''nature'' ''nature'' ''rain''] constructor) = None \<and>
   (\<exists>bytes. getAnalyserData (\<lambda>i. 128) ''nature''
     (run (\<lambda>n. 0) [Initialize (Some 48000), CreateLayer ''nature'' (Some 0.6),
       CreateLayer ''music'' None, Play (\<lambda>p. Loaded) ''nature'' ''nature'' ''rain''] constructor) = Some bytes \<and>
     length bytes = 128)"
proof -
  let ?s = "run (\<lambda>n. 0) [Initialize (Some 48000), CreateLayer ''nature'' (Some 0.6),
       CreateLayer ''music'' None, Play (\<lambda>p. Loaded) ''nature'' ''nature'' ''rain''] constructor"
  show ?thesis
    using getAnalyserData_null_unless_playing [of ?s "''ghost''" "\<lambda>i. 128"]
      getAnalyserData_null_unless_playing [of ?s "''music''" "\<lambda>i. 128"]
      getAnalyserData_null_unless_playing [of ?s "''nature''" "\<lambda>i. 128"]
    unfolding two_layers_state by (simp add: frequencyBinCount_def)
qed

subsection \<open>File fallback, playback without crossfade, pending teardowns\<close>

text \<open>
  Claim C9. In every state the engine reaches, for every layer it has and every
  file-backed sound (not one of the three generated colors) whose path the table lacks or
  whose file the browser cannot load, \<^verbatim>\<open>loadAndPlayAudio\<close> returns without a throw, has
  written an error entry to the console, and leaves a 220 Hz sine oscillator bound to
  the layer, which is playing \<^verbatim>\<open>tone/220Hz\<close>.
\<close>

theorem unresolved_file_falls_back_to_tone:
  assumes "s = run rnd0 cmds constructor"
    and "map_of (layers s) l \<noteq> None"
    and "\<not> (soundType = ''noise'' \<and> soundName \<in> set [''white'', ''pink'', ''brown''])"
    and "audioLibrary soundType soundName = None \<or>
       (\<exists>path. audioLibrary soundType soundName = Some path \<and> media path \<noteq> Loaded)"
  shows "\<exists>s'. loadAndPlayAudio media rnd l soundType soundName s = Done s' \<and>
           (\<exists>before msg. console s' = console s @ before @
               [(Err, msg), (Log, ''Playing fallback tone: 220Hz on layer '' @ l)]) \<and>
           (\<exists>layer'. map_of (layers s') l = Some layer' \<and>
              sourceNode layer' = Some (OscillatorNode ''sine'' 220) \<and>
              currentSound layer' = Some ''tone/220Hz'' \<and> isPlaying layer')"
proof -
  have "audioContext s \<noteq> None"
    using assms(1,2) reachable_context [of rnd0 cmds l] by simp
  then show ?thesis
    using assms(2,3,4) by (intro loadAndPlayAudio_fallback)
qed

theorem unresolved_file_falls_back_to_tone_witness:
  "map_of (layers (run (\<lambda>n. 0) [Initialize (Some 48000), CreateLayer ''nature'' (Some 0.6)] constructor))
      ''nature'' \<noteq> None \<and>
   \<not> (''nature'' = ''noise'' \<and> ''rain'' \<in> set [''white'', ''pink'', ''brown'']) \<and>
   (audioLibrary ''nature'' ''rain'' = Some ''assets/audio/nature/rain.mp3'' \<and>
    (\<lambda>p. PlayRejected) ''assets/audio/nature/rain.mp3'' \<noteq> Loaded) \<and>
   (\<exists>s'. loadAndPlayAudio (\<lambda>p. PlayRejected) (\<lambda>n. 0) ''nature'' ''nature'' ''rain''
            (run (\<lambda>n. 0) [Initialize (Some 48000), CreateLayer ''nature'' (Some 0.6)] constructor) = Done s' \<and>
      (\<exists>before msg. console s' =
          console (run (\<lambda>n. 0) [Initialize (Some 48000), CreateLayer ''nature'' (Some 0.6)] constructor)
            @ before @ [(Err, msg), (Log, ''Playing fallback tone: 220Hz on layer '' @ ''nature'')]) \<and>
      (\<exists>layer'. map_of (layers s') ''nature'' = Some layer' \<and>
          sourceNode layer' = Some (OscillatorNode ''sine'' 220) \<and>
          currentSound layer' = Some ''tone/220Hz'' \<and> isPlaying layer'))"
proof -
  let ?s = "run (\<lambda>n. 0) [Initialize (Some 48000), CreateLayer ''nature'' (Some 0.6)] constructor"
  have h2: "map_of (layers ?s) ''nature'' \<noteq> None" unfolding start_state by simp
  have h3: "\<not> (''nature'' = ''noise'' \<and> ''rain'' \<in> set [''white'', ''pink'', ''brown''])" by simp
  have lib: "audioLibrary ''nature'' ''rain'' = Some ''assets/audio/nature/rain.mp3''"
    by (simp add: audioLibrary_def)
  have h4: "audioLibrary ''nature'' ''rain'' = None \<or>
       (\<exists>path. audioLibrary ''nature'' ''rain'' = Some path \<and> (\<lambda>p. PlayRejected) path \<noteq> Loaded)"
    by (simp add: lib)
  show ?thesis
    using h2 h3 lib
      unresolved_file_falls_back_to_tone [OF refl h2 h3 h4, of "\<lambda>n. 0"]
    by simp
qed

text \<open>Steps that leave every layer's gain parameter as it is.\<close>

lemma layer_gain_modify_layer:
  "(\<And>x. gainNode (f x) = gainNode x) \<Longrightarrow> layer_gain (modify_layer l f s) k = layer_gain s k"
  by (cases "map_of (layers s) l") (auto simp add: layer_gain_def layers_modify_layer)

lemma layer_gain_console_log [simp]: "layer_gain (console_log lvl msg s) k = layer_gain s k"
  by (simp add: layer_gain_def)

lemma layer_gain_stopLayerImmediately [simp]:
  "layer_gain (stopLayerImmediately l s) k = layer_gain s k"
  by (cases "map_of (layers s) l") (auto simp add: layer_gain_def layers_stopLayerImmediately)

lemma layer_gain_generateTone [simp]:
  "layer_gain (state_of (generateTone l f s)) k = layer_gain s k"
  by (simp add: generateTone_def layer_gain_modify_layer split: option.splits)

lemma layer_gain_cache_update [simp]:
  "layer_gain (s\<lparr>noiseGenerators := g, randomCalls := n\<rparr>) k = layer_gain s k"
  by (simp add: layer_gain_def)






text \<open>
  Claim C1 fails on the code. A layer that plays \<^verbatim>\<open>nature/rain\<close> is stopped with crossfade
  enabled: the fade-out queues its teardown for one fade duration later. Half a second
  later the caller plays \<^verbatim>\<open>nature/forest\<close> on the layer. The play cancels the scheduled
  gain values, but both queued teardowns stay pending, and when the first is due it stops
  the new sound. The same happens when the caller switches the sound of a playing layer:
  the teardown that the play itself queued stops the sound the play started.
\<close>

theorem stale_teardown_stops_new_sound:
  "map_option (\<lambda>layer. (isPlaying layer, currentSound layer, sourceNode layer))
     (map_of (layers (run (\<lambda>n. 0)
        [Initialize (Some 48000), CreateLayer ''nature'' (Some 0.6),
         Play (\<lambda>p. Loaded) ''nature'' ''nature'' ''rain'', Advance 5, Stop ''nature'',
         Advance 0.5, Play (\<lambda>p. Loaded) ''nature'' ''nature'' ''forest''] constructor)) ''nature'')
     = Some (True, Some ''nature/forest'',
             Some (MediaElementSource ''assets/audio/nature/forest.mp3'')) \<and>
   timers (run (\<lambda>n. 0)
        [Initialize (Some 48000), CreateLayer ''nature'' (Some 0.6),
         Play (\<lambda>p. Loaded) ''nature'' ''nature'' ''rain'', Advance 5, Stop ''nature'',
         Advance 0.5, Play (\<lambda>p. Loaded) ''nature'' ''nature'' ''forest''] constructor)
     = [(6, ''nature''), (6.5, ''nature'')] \<and>
   map_option (\<lambda>layer. (isPlaying layer, currentSound layer, sourceNode layer))
     (map_of (layers (run (\<lambda>n. 0)
        [Initialize (Some 48000), CreateLayer ''nature'' (Some 0.6),
         Play (\<lambda>p. Loaded) ''nature'' ''nature'' ''rain'', Advance 5, Stop ''nature'',
         Advance 0.5, Play (\<lambda>p. Loaded) ''nature'' ''nature'' ''forest'', Advance 0.5]
        constructor)) ''nature'')
     = Some (False, None, None) \<and>
   map_option (\<lambda>layer. (isPlaying layer, currentSound layer, sourceNode layer))
     (map_of (layers (run (\<lambda>n. 0)
        [Initialize (Some 48000), CreateLayer ''nature'' (Some 0.6),
         Play (\<lambda>p. Loaded) ''nature'' ''nature'' ''rain'', Advance 5,
         Play (\<lambda>p. Loaded) ''nature'' ''nature'' ''forest'', Advance 1] constructor)) ''nature'')
     = Some (False, None, None)"
  by (simp add: engine_defs Let_def)

subsection \<open>Gain values\<close>










text \<open>The invariant, step by step.\<close>

lemma gains_clamped_cong:
  "layers s' = layers s \<Longrightarrow> masterGain s' = masterGain s \<Longrightarrow> gains_clamped s' = gains_clamped s"
  by (simp add: gains_clamped_def)




lemma gains_clamped_console_log [simp]: "gains_clamped (console_log lvl msg s) = gains_clamped s"
  by (rule gains_clamped_cong) simp_all
























subsection \<open>\<^verbatim>\<open>stopAll()\<close> followed by \<^verbatim>\<open>playAll()\<close>\<close>











text \<open>Only \<^verbatim>\<open>setLayerVolume\<close> writes the stored volume of a layer.\<close>

lemma layer_volume_modify_layer:
  "(\<And>x. volume (f x) = volume x) \<Longrightarrow> layer_volume (modify_layer l f s) k = layer_volume s k"
  by (cases "map_of (layers s) l") (auto simp add: layer_volume_def layers_modify_layer)

lemma layer_volume_console_log [simp]: "layer_volume (console_log lvl msg s) k = layer_volume s k"
  by (simp add: layer_volume_def)

lemma layer_volume_timers [simp]: "layer_volume (s\<lparr>timers := ts\<rparr>) k = layer_volume s k"
  by (simp add: layer_volume_def)

lemma layer_volume_cache_update [simp]:
  "layer_volume (s\<lparr>noiseGenerators := g, randomCalls := n\<rparr>) k = layer_volume s k"
  by (simp add: layer_volume_def)

lemma layer_volume_stopLayerImmediately [simp]:
  "layer_volume (stopLayerImmediately l s) k = layer_volume s k"
  by (cases "map_of (layers s) l") (auto simp add: layer_volume_def layers_stopLayerImmediately)

lemma layer_volume_fadeIn [simp]: "layer_volume (state_of (fadeIn l s)) k = layer_volume s k"
  by (simp add: fadeIn_def Let_def layer_volume_modify_layer split: option.splits)

lemma layer_volume_fadeOut [simp]: "layer_volume (state_of (fadeOut l cb s)) k = layer_volume s k"
  by (simp add: fadeOut_def Let_def layer_volume_modify_layer split: option.splits)

lemma layer_volume_stopLayer [simp]: "layer_volume (state_of (stopLayer l s)) k = layer_volume s k"
  by (simp add: stopLayer_def split: option.splits)

lemma layer_volume_generateTone [simp]:
  "layer_volume (state_of (generateTone l f s)) k = layer_volume s k"
  by (simp add: generateTone_def layer_volume_modify_layer split: option.splits)

lemma layer_volume_and_then:
  assumes "layer_volume (state_of r) k = layer_volume s k"
    and "\<And>s1. layer_volume (state_of (f s1)) k = layer_volume s1 k"
  shows "layer_volume (state_of (and_then r f)) k = layer_volume s k"
  using assms by (cases r) simp_all

lemma layer_volume_generateAndPlayNoise [simp]:
  "layer_volume (state_of (generateAndPlayNoise rnd l col s)) k = layer_volume s k"
proof (cases "map_of (layers s) l = None \<or> audioContext s = None")
  case True
  then show ?thesis by (auto simp add: generateAndPlayNoise_def split: option.splits)
next
  case False
  then obtain layer ctx where l: "map_of (layers s) l = Some layer" and c: "audioContext s = Some ctx"
    by auto
  define b where "b = (case map_of (noiseGenerators s) col of
                   Some cached \<Rightarrow> cached
                 | None \<Rightarrow> fst (createNoiseBuffer rnd (randomCalls s) ctx col))"
  define s1 where "s1 = (case map_of (noiseGenerators s) col of
                     Some cached \<Rightarrow> s
                   | None \<Rightarrow> s\<lparr>noiseGenerators := AList.update col b (noiseGenerators s),
                               randomCalls := snd (createNoiseBuffer rnd (randomCalls s) ctx col)\<rparr>)"
  define s2 where "s2 = modify_layer l
                    (\<lambda>x. x\<lparr>noiseSource := Some (BufferSource b True),
                            sourceNode := Some (BufferSource b True),
                            currentSound := Some (''noise/'' @ col), isPlaying := True\<rparr>) s1"
  have eq: "generateAndPlayNoise rnd l col s =
      and_then (if enableCrossfade (config s2) then fadeIn l s2 else Done s2)
        (\<lambda>s3. Done (console_log Log (''Playing '' @ col @ '' noise on layer '' @ l) s3))"
    by (rule generateAndPlayNoise_eq [OF l c b_def s1_def s2_def])
  have v1: "layer_volume s1 k = layer_volume s k"
    by (simp add: s1_def split: option.splits)
  have v2: "layer_volume s2 k = layer_volume s1 k"
    by (simp add: s2_def layer_volume_modify_layer)
  have "layer_volume (state_of (generateAndPlayNoise rnd l col s)) k = layer_volume s2 k"
    unfolding eq by (rule layer_volume_and_then) simp_all
  then show ?thesis using v1 v2 by simp
qed

lemma layer_volume_loadAndPlayAudio_try [simp]:
  "layer_volume (state_of (loadAndPlayAudio_try media l soundType soundName path s)) k = layer_volume s k"
proof -
  define s2 where "s2 = modify_layer l
     (\<lambda>x. x\<lparr>audioElement := Some \<lparr>src = path, loop = loopLayers (config s), crossOrigin = ''anonymous''\<rparr>,
             sourceNode := Some (MediaElementSource path),
             currentSound := Some (soundType @ ''/'' @ soundName)\<rparr>) s"
  define r where "r = (if enableCrossfade (config s2) then fadeIn l s2 else Done s2)"
  have v2: "layer_volume s2 k = layer_volume s k"
    by (simp add: s2_def layer_volume_modify_layer)
  have v3: "layer_volume (state_of r) k = layer_volume s k"
    using v2 by (simp add: r_def)
  show ?thesis
    unfolding loadAndPlayAudio_try_def Let_def s2_def [symmetric] r_def [symmetric]
    using v3 by (cases r) (auto simp add: Let_def layer_volume_modify_layer)
qed

lemma layer_volume_loadAndPlayAudio [simp]:
  "layer_volume (state_of (loadAndPlayAudio media rnd l soundType soundName s)) k = layer_volume s k"
proof (cases "map_of (layers s) l")
  case None
  then show ?thesis by (simp add: loadAndPlayAudio_def)
next
  case (Some layer)
  show ?thesis
    unfolding loadAndPlayAudio_def Some option.case
    by (rule layer_volume_and_then) (auto split: option.splits)
qed

lemma layer_volume_stopAll_loop [simp]:
  "layer_volume (state_of (stopAll_loop entries s)) k = layer_volume s k"
proof (induction entries arbitrary: s)
  case Nil
  show ?case by simp
next
  case (Cons entry entries)
  obtain layerId layer0 where entry: "entry = (layerId, layer0)" by (cases entry)
  have "layer_volume (state_of (and_then (stopLayer layerId s) (stopAll_loop entries))) k = layer_volume s k"
    by (rule layer_volume_and_then) (simp_all add: Cons.IH)
  then show ?case by (simp add: entry Cons.IH split: option.splits)
qed

lemma layer_volume_playAll_loop [simp]:
  "layer_volume (playAll_loop media rnd entries s) k = layer_volume s k"
proof (induction entries arbitrary: s)
  case Nil
  show ?case by simp
next
  case (Cons entry entries)
  obtain layerId layer where entry: "entry = (layerId, layer)" by (cases entry)
  show ?case
    by (simp add: entry Cons.IH case_prod_beta split: option.splits)
qed

lemma layer_volume_teardown_fold [simp]:
  "layer_volume (foldl (\<lambda>s' (t, target). stopLayerImmediately target s') s due) k = layer_volume s k"
  by (induction due arbitrary: s) (simp_all add: case_prod_beta)

lemma layer_volume_advance [simp]: "layer_volume (advance dt s) k = layer_volume s k"
proof -
  have "\<And>w c ts. layer_volume (s\<lparr>wallClock := w, audioContext := c, timers := ts\<rparr>) k = layer_volume s k"
    by (simp add: layer_volume_def)
  then show ?thesis by (simp add: advance_def Let_def)
qed




end
